theory Spec2Isabelle
  imports Complex_Main "HOL-Library.Multiset"
begin

section \<open>The Azure metrics plugin: data model\<close>

text \<open>
  The plugin has two variants of one file: the current one (four metric kinds, a table
  of metric names by resource type, points reduced from average, minimum and maximum)
  and the legacy one (two metric kinds, points read from average only). Functions that
  are the same text in both are modelled once.
\<close>

datatype MetricType = cpu | ram | memory_percent | disk

subsection \<open>The interval quantizer\<close>

text \<open>
  Modelled from the spec: the \<open>timestring\<close> package that \<open>getValidInterval\<close> calls is not
  part of the sources. The catalog strings are a decimal count followed by a unit, and
  each is "resolved to a millisecond duration": minutes, hours and days in milliseconds.
\<close>

definition digit_val :: "char \<Rightarrow> int" where
  "digit_val c = int (of_char c) - 48"

definition is_digit :: "char \<Rightarrow> bool" where
  "is_digit c = (c \<in> set ''0123456789'')"

definition unit_ms :: "string \<Rightarrow> int" where
  "unit_ms u =
     (if u = ''ms'' then 1
      else if u = ''s'' then 1000
      else if u = ''m'' then 60000
      else if u = ''h'' then 3600000
      else if u = ''d'' then 86400000
      else 0)"

definition timestring :: "string \<Rightarrow> int" where
  "timestring s =
     foldl (\<lambda>n c. 10 * n + digit_val c) 0 (takeWhile is_digit s) * unit_ms (dropWhile is_digit s)"

record interval =
  display :: string
  ms :: int

definition validIntervals :: "interval list" where
  "validIntervals =
     map (\<lambda>d. \<lparr>display = d, ms = timestring d\<rparr>)
       [''1m'', ''5m'', ''15m'', ''30m'', ''1h'', ''6h'', ''12h'', ''1d'']"

text \<open>The callback of the \<open>reduce\<close>: a strictly closer entry replaces the best so far.\<close>

definition closer :: "int \<Rightarrow> interval \<Rightarrow> interval \<Rightarrow> interval" where
  "closer stepMS best v = (if \<bar>ms v - stepMS\<bar> < \<bar>ms best - stepMS\<bar> then v else best)"

text \<open>
  \<open>reduce\<close> with an initial value visits every element, the first one included; the seed
  \<open>validIntervals[0]\<close> exists because the catalog is a non-empty literal. The step is a
  count of milliseconds, an integer, on which the subtraction of the source is exact.
\<close>

definition closestMatch :: "int \<Rightarrow> interval" where
  "closestMatch stepMS = foldl (closer stepMS) (validIntervals ! 0) validIntervals"

definition getValidInterval :: "int \<Rightarrow> string" where
  "getValidInterval stepMS = display (closestMatch stepMS)"

subsection \<open>JavaScript values, failures and the external tool\<close>

text \<open>
  A field of a parsed JSON object is absent (\<open>undefined\<close>), \<open>null\<close> or a value. Numbers
  are taken as reals, with \<open>NaN\<close> as the one extra number that arithmetic on \<open>undefined\<close>
  produces; rounding of the floating-point division is not modelled.
\<close>

datatype 'a js = Undefined | Null | Val 'a

datatype number = NaN | Fin real

text \<open>The operator \<open>a ?? b\<close>.\<close>

definition nullish :: "'a js \<Rightarrow> 'a js \<Rightarrow> 'a js" where
  "nullish a b = (case a of Undefined \<Rightarrow> b | Null \<Rightarrow> b | Val x \<Rightarrow> Val x)"

text \<open>The conversion that \<open>/\<close> applies to its left operand, and division by a non-zero literal.\<close>

definition ToNumber :: "number js \<Rightarrow> number" where
  "ToNumber v = (case v of Undefined \<Rightarrow> NaN | Null \<Rightarrow> Fin 0 | Val n \<Rightarrow> n)"

definition divide_by :: "number \<Rightarrow> real \<Rightarrow> number" where
  "divide_by n d = (case n of NaN \<Rightarrow> NaN | Fin x \<Rightarrow> Fin (x / d))"

text \<open>
  What stops a call: an exception thrown by the runtime, or \<open>process.exit(1)\<close> after a
  message on the error stream. The message is kept so that the failures can be told apart.
\<close>

datatype thrown = TypeError | SyntaxError

datatype diagnostic =
    MetricNotSupported MetricType string
  | CommandFailed string
  | Caught thrown

datatype failure = ProcessExit int diagnostic | Throw thrown

text \<open>
  The result of \<open>exec\<close>: the exit status and the captured standard output, the latter as
  what \<open>JSON.parse\<close> makes of it (\<open>None\<close> when it is not JSON and \<open>JSON.parse\<close> throws).
\<close>

record 'a exec_result =
  code :: int
  stdout :: "'a option"

record IAZResource =
  id_res :: string
  name :: string

record IMetricDataPoint =
  average :: "number js"
  maximum :: "number js"
  minimum :: "number js"
  timeStamp :: string

text \<open>
  The payload of \<open>az monitor metrics list\<close>, as far as \<open>getTimeSeries\<close> reads it: an object
  with a \<open>value\<close> array of objects, each with an optional \<open>timeseries\<close> array of objects that
  have an optional \<open>data\<close> array of points.
\<close>

record timeseries_element =
  data :: "IMetricDataPoint list js"

record metric_element =
  timeseries :: "timeseries_element list js"

record metrics_payload =
  payload_value :: "metric_element list"

text \<open>
  The world outside the process: the \<open>az\<close> executable, by command line, for each of the two
  commands the plugin issues; the \<open>RegExp\<close> constructor called without flags (\<open>None\<close> when
  the pattern is not a regular expression and the constructor throws, else the
  \<open>test\<close> method of the expression); and \<open>Date.toISOString\<close>.
\<close>

record 'r world =
  exec_resource_list :: "string \<Rightarrow> 'r IAZResource_scheme list exec_result"
  exec_metrics_list :: "string \<Rightarrow> metrics_payload exec_result"
  RegExp :: "string \<Rightarrow> (string \<Rightarrow> bool) option"
  toISOString :: "int \<Rightarrow> string"

record IAZPluginOptions =
  resource_group :: "string option"
  resource_type :: "string option"
  metric_opt :: "MetricType option"
  filter_opt :: "string option"

record ITSAPluginArgs =
  args_start :: int
  args_end :: int
  step :: int

subsection \<open>Running the external tool\<close>

text \<open>\<open>String.trim\<close>, on the ASCII white space characters.\<close>

definition is_space :: "char \<Rightarrow> bool" where
  "is_space c = (c \<in> set [CHR '' '', CHR 0x09, CHR 0x0A, CHR 0x0B, CHR 0x0C, CHR 0x0D])"

definition trim :: "string \<Rightarrow> string" where
  "trim s = rev (dropWhile is_space (rev (dropWhile is_space s)))"

text \<open>
  \<open>execOrFail\<close> and \<open>execOrFailAsync\<close> take the command and the function that runs it; the
  asynchronous one is the same test, made when the command completes.
\<close>

definition execOrFail :: "(string \<Rightarrow> 'a exec_result) \<Rightarrow> string \<Rightarrow> failure + 'a option" where
  "execOrFail exec command =
     (let r = exec (trim command)
      in if code r \<noteq> 0 then Inl (ProcessExit 1 (CommandFailed command)) else Inr (stdout r))"

definition execOrFailAsync :: "(string \<Rightarrow> 'a exec_result) \<Rightarrow> string \<Rightarrow> failure + 'a option" where
  "execOrFailAsync exec command =
     (let r = exec (trim command)
      in if code r \<noteq> 0 then Inl (ProcessExit 1 (CommandFailed command)) else Inr (stdout r))"

definition JSON_parse :: "'a option \<Rightarrow> failure + 'a" where
  "JSON_parse out = (case out of None \<Rightarrow> Inl (Throw SyntaxError) | Some v \<Rightarrow> Inr v)"

definition az :: "(string \<Rightarrow> 'a exec_result) \<Rightarrow> string \<Rightarrow> failure + 'a" where
  "az exec command =
     (case execOrFail exec (''az '' @ command) of Inl e \<Rightarrow> Inl e | Inr out \<Rightarrow> JSON_parse out)"

definition azAsync :: "(string \<Rightarrow> 'a exec_result) \<Rightarrow> string \<Rightarrow> failure + 'a" where
  "azAsync exec command =
     (case execOrFailAsync exec (''az '' @ command) of Inl e \<Rightarrow> Inl e | Inr out \<Rightarrow> JSON_parse out)"

subsection \<open>The resource lister\<close>

definition defaultResourceType :: string where
  "defaultResourceType = ''Microsoft.Compute/virtualMachines''"

text \<open>The expression \<open>options['resource-type'] ?? 'Microsoft.Compute/virtualMachines'\<close>.\<close>

definition resourceTypeOrDefault :: "IAZPluginOptions \<Rightarrow> string" where
  "resourceTypeOrDefault options =
     (case resource_type options of None \<Rightarrow> defaultResourceType | Some t \<Rightarrow> t)"

definition resourceListCommand :: "IAZPluginOptions \<Rightarrow> string" where
  "resourceListCommand options =
     (let group = (case resource_group options of
                     None \<Rightarrow> []
                   | Some g \<Rightarrow> if g \<noteq> [] then ''--resource-group '' @ g else []);
          type = ''--resource-type '' @ resourceTypeOrDefault options
      in ''resource list '' @ type @ '' '' @ group)"

text \<open>
  The callback of \<open>filter\<close>: \<open>!options.filter\<close> holds for an absent and for an empty
  pattern; otherwise the expression is built, which may throw, and tested on the name.
\<close>

definition nameFilter :: "'r world \<Rightarrow> IAZPluginOptions \<Rightarrow> 'r IAZResource_scheme \<Rightarrow> failure + bool" where
  "nameFilter w options x =
     (case filter_opt options of
        None \<Rightarrow> Inr True
      | Some p \<Rightarrow>
          if p = [] then Inr True
          else (case RegExp w p of None \<Rightarrow> Inl (Throw SyntaxError) | Some test \<Rightarrow> Inr (test (name x))))"

text \<open>\<open>Array.filter\<close> with a callback that may throw: the first exception ends the scan.\<close>

fun filter_throwing :: "('a \<Rightarrow> failure + bool) \<Rightarrow> 'a list \<Rightarrow> failure + 'a list" where
  "filter_throwing f [] = Inr []"
| "filter_throwing f (x # xs) =
     (case f x of
        Inl e \<Rightarrow> Inl e
      | Inr keep \<Rightarrow>
          (case filter_throwing f xs of
             Inl e \<Rightarrow> Inl e
           | Inr ys \<Rightarrow> Inr (if keep then x # ys else ys)))"

definition getVMIds :: "'r world \<Rightarrow> IAZPluginOptions \<Rightarrow> failure + IAZResource list" where
  "getVMIds w options =
     (case az (exec_resource_list w) (resourceListCommand options) of
        Inl e \<Rightarrow> Inl e
      | Inr listed \<Rightarrow>
          (case filter_throwing (nameFilter w options) listed of
             Inl e \<Rightarrow> Inl e
           | Inr kept \<Rightarrow> Inr (map (\<lambda>x. \<lparr>id_res = id_res x, name = name x\<rparr>) kept)))"

subsection \<open>The time-series fetcher\<close>

text \<open>
  The two lines after the \<open>await\<close>: \<open>data.value[0] || {}\<close> is the first element or, for an
  empty array, an object without fields; reading \<open>length\<close> of a \<open>timeseries\<close> that is
  \<open>undefined\<close> or \<open>null\<close> throws a TypeError.
\<close>

definition firstTimeseries :: "metrics_payload \<Rightarrow> timeseries_element list js" where
  "firstTimeseries d = (case payload_value d of [] \<Rightarrow> Undefined | e # _ \<Rightarrow> timeseries e)"

definition selectSeries :: "metrics_payload \<Rightarrow> failure + IMetricDataPoint list js" where
  "selectSeries d =
     (case firstTimeseries d of
        Val ts \<Rightarrow> Inr (if length ts > 0 then data (ts ! 0) else Null)
      | _ \<Rightarrow> Inl (Throw TypeError))"

definition metricsListCommand :: "string \<Rightarrow> string \<Rightarrow> string" where
  "metricsListCommand i options = ''monitor metrics list '' @ (''--resource '' @ i) @ '' '' @ options"

definition getTimeSeries :: "'r world \<Rightarrow> string \<Rightarrow> string \<Rightarrow> failure + IMetricDataPoint list js" where
  "getTimeSeries w i options =
     (case azAsync (exec_metrics_list w) (metricsListCommand i options) of
        Inl e \<Rightarrow> Inl e
      | Inr d \<Rightarrow> selectSeries d)"

subsection \<open>The data point normalizer\<close>

definition transformValue :: "number js \<Rightarrow> MetricType \<Rightarrow> number js" where
  "transformValue v metric =
     (if metric = ram then Val (divide_by (ToNumber v) 1000000000) else v)"

datatype Date = Date string

type_synonym NormalizedPoint = "Date \<times> number js"

definition mapTimeSeriesDataPoint :: "IMetricDataPoint \<Rightarrow> MetricType \<Rightarrow> NormalizedPoint option" where
  "mapTimeSeriesDataPoint point metricType =
     (let v = nullish (nullish (average point) (minimum point)) (maximum point)
      in if v \<noteq> Undefined \<and> v \<noteq> Null
         then Some (Date (timeStamp point), transformValue v metricType)
         else None)"

text \<open>
  The series stored for a resource: every point mapped, then the \<open>null\<close> results filtered
  out (a pair is an array, which is truthy whatever it holds).
\<close>

definition normalizeSeries :: "IMetricDataPoint list \<Rightarrow> MetricType \<Rightarrow> NormalizedPoint list" where
  "normalizeSeries rawSeries metricType =
     map the (filter (\<lambda>x. x \<noteq> None) (map (\<lambda>x. mapTimeSeriesDataPoint x metricType) rawSeries))"

text \<open>
  The value a point is reduced to, in the words of the specification: the average if it
  is present and not null, else the minimum, else the maximum, and none when all three
  are absent or null.
\<close>

definition reduce_priority :: "IMetricDataPoint \<Rightarrow> number option" where
  "reduce_priority p =
     (case average p of
        Val a \<Rightarrow> Some a
      | _ \<Rightarrow> (case minimum p of
                Val b \<Rightarrow> Some b
              | _ \<Rightarrow> (case maximum p of Val c \<Rightarrow> Some c | _ \<Rightarrow> None)))"

text \<open>
  The legacy variant filters on the average alone and transforms it as it is. Its
  interface declares only the average and the timestamp of a point, and its metric kinds
  are \<open>cpu\<close> and \<open>ram\<close>; the parsed point is the same object, whatever else it holds.
\<close>

definition normalizeSeries_legacy :: "IMetricDataPoint list \<Rightarrow> MetricType \<Rightarrow> NormalizedPoint list" where
  "normalizeSeries_legacy rawSeries metricType =
     map (\<lambda>x. (Date (timeStamp x), transformValue (average x) metricType))
       (filter (\<lambda>x. average x \<noteq> Null) rawSeries)"

subsection \<open>The metric name resolver\<close>

text \<open>
  The table is an object literal, read here as the association list of its own
  properties. A resource type named like a property that every object inherits
  (\<open>constructor\<close>, \<open>toString\<close>, ...) finds a function or object that has no property named
  after a metric kind, so it fails as a resource type that is not in the table does.
  \<open>!metric\<close> holds for a missing and for an empty name.
\<close>

definition metricNamesForResourceType :: "(string \<times> (MetricType \<times> string) list) list" where
  "metricNamesForResourceType =
     [(''Microsoft.Compute/virtualMachines'',
         [(cpu, ''Percentage CPU''), (ram, ''Available Memory Bytes'')]),
      (''Microsoft.DBforMySQL/flexibleServers'',
         [(cpu, ''cpu_percent''), (memory_percent, ''memory_percent''), (disk, ''storage_percent'')])]"

definition mapMetricName :: "IAZPluginOptions \<Rightarrow> MetricType \<Rightarrow> failure + string" where
  "mapMetricName options metricType =
     (let type = resourceTypeOrDefault options;
          names = (case map_of metricNamesForResourceType type of None \<Rightarrow> [] | Some m \<Rightarrow> m)
      in case map_of names metricType of
           None \<Rightarrow> Inl (ProcessExit 1 (MetricNotSupported metricType type))
         | Some n \<Rightarrow>
             if n = [] then Inl (ProcessExit 1 (MetricNotSupported metricType type)) else Inr n)"

subsection \<open>The collection orchestrator\<close>

text \<open>
  What a run does that can be seen from outside, in order: the commands it starts and the
  progress lines \<open>logProgress\<close> writes, each with the completed and the total count.
\<close>

datatype event = is_Launch: Launch string | is_Progress: Progress nat nat

record run_state =
  completedQueries :: nat
  labeled :: "string \<rightharpoonup> NormalizedPoint list"
  events :: "event list"
  exited :: "failure option"

text \<open>The \<open>catch\<close> block of \<open>execute\<close>: whatever was thrown is printed and the process exits.\<close>

definition catch_exit :: "failure \<Rightarrow> failure" where
  "catch_exit e = (case e of Throw t \<Rightarrow> ProcessExit 1 (Caught t) | ProcessExit c d \<Rightarrow> ProcessExit c d)"

text \<open>
  The body of the per-resource task from the point where its command has completed. It
  runs to its end without interleaving, the runtime being single-threaded.
\<close>

definition settle ::
  "'r world \<Rightarrow> string \<Rightarrow> MetricType \<Rightarrow> nat \<Rightarrow> run_state \<Rightarrow> IAZResource \<Rightarrow> run_state" where
  "settle w timeSeriesFlags metricType totalQueries st vm =
     (case getTimeSeries w (id_res vm) timeSeriesFlags of
        Inl e \<Rightarrow> st\<lparr>exited := Some (catch_exit e)\<rparr>
      | Inr rawSeries \<Rightarrow>
          (let st1 = (case rawSeries of
                        Val rs \<Rightarrow> st\<lparr>labeled := (labeled st)(name vm \<mapsto> normalizeSeries rs metricType)\<rparr>
                      | _ \<Rightarrow> st);
               st2 = st1\<lparr>completedQueries := completedQueries st1 + 1\<rparr>
           in st2\<lparr>events := events st2 @ [Progress (completedQueries st2) totalQueries]\<rparr>))"

text \<open>
  The commands complete in some order, given as the list of resources in completion
  order; a failed completion ends the process, so the later ones are never handled.
\<close>

fun settle_all ::
  "'r world \<Rightarrow> string \<Rightarrow> MetricType \<Rightarrow> nat \<Rightarrow> run_state \<Rightarrow> IAZResource list \<Rightarrow> run_state" where
  "settle_all w fl m n st [] = st"
| "settle_all w fl m n st (vm # rest) =
     (let st' = settle w fl m n st vm
      in if exited st' \<noteq> None then st' else settle_all w fl m n st' rest)"

definition timeSeriesFlags_of :: "'r world \<Rightarrow> ITSAPluginArgs \<Rightarrow> string \<Rightarrow> string" where
  "timeSeriesFlags_of w args metricName =
     (let startTime = ''--start-time '' @ toISOString w (args_start args);
          endTime = ''--end-time '' @ toISOString w (args_end args);
          interval = ''--interval '' @ getValidInterval (step args);
          metrics = ''--metric '' @ [CHR 0x22] @ metricName @ [CHR 0x22]
      in metrics @ '' '' @ startTime @ '' '' @ endTime @ '' '' @ interval)"

text \<open>
  \<open>execute\<close>, with the order in which the per-resource commands complete as an argument.
  All per-resource commands are started, in listing order, before any of them completes.
  The requested metric is \<open>options.metric ?? MetricType.cpu\<close>.
\<close>

definition requestedMetric :: "IAZPluginOptions \<Rightarrow> MetricType" where
  "requestedMetric options = (case metric_opt options of None \<Rightarrow> cpu | Some m \<Rightarrow> m)"

definition execute ::
  "'r world \<Rightarrow> ITSAPluginArgs \<Rightarrow> IAZPluginOptions \<Rightarrow> IAZResource list \<Rightarrow> run_state" where
  "execute w args options order =
     (let metricType = requestedMetric options;
          st0 = \<lparr>completedQueries = 0, labeled = Map.empty, events = [], exited = None\<rparr>
      in case mapMetricName options metricType of
           Inl e \<Rightarrow> st0\<lparr>exited := Some e\<rparr>
         | Inr metricName \<Rightarrow>
             (let timeSeriesFlags = timeSeriesFlags_of w args metricName;
                  st1 = st0\<lparr>events := [Launch (trim (''az '' @ resourceListCommand options))]\<rparr>
              in case getVMIds w options of
                   Inl e \<Rightarrow> st1\<lparr>exited := Some (catch_exit e)\<rparr>
                 | Inr vmIds \<Rightarrow>
                     (let totalQueries = length vmIds;
                          st2 = st1\<lparr>events := events st1 @ [Progress 0 totalQueries]\<rparr>;
                          st3 = st2\<lparr>events := events st2 @
                                  map (\<lambda>vm. Launch (trim (''az '' @ metricsListCommand (id_res vm) timeSeriesFlags))) vmIds\<rparr>
                      in settle_all w timeSeriesFlags metricType totalQueries st3 order)))"

text \<open>The events of a run up to the point where every per-resource command is started.\<close>

definition fanned_out :: "'r world \<Rightarrow> ITSAPluginArgs \<Rightarrow> IAZPluginOptions \<Rightarrow> string \<Rightarrow> IAZResource list \<Rightarrow> event list" where
  "fanned_out w args options metricName vmIds =
     [Launch (trim (''az '' @ resourceListCommand options)), Progress 0 (length vmIds)] @
     map (\<lambda>vm. Launch (trim (''az '' @ metricsListCommand (id_res vm) (timeSeriesFlags_of w args metricName)))) vmIds"

text \<open>The value \<open>execute\<close> resolves to: the map, unless the process has exited.\<close>

definition returned :: "run_state \<Rightarrow> failure + (string \<rightharpoonup> NormalizedPoint list)" where
  "returned st = (case exited st of Some e \<Rightarrow> Inl e | None \<Rightarrow> Inr (labeled st))"

subsection \<open>Sample inputs\<close>

text \<open>
  Concrete inputs on which the theorems below are instantiated: a listing of three
  resources, a payload with one series, and a world whose metrics command is given.
  Of \<open>RegExp\<close> only the pattern \<open>^web\<close> is needed, which tests for a name starting with
  \<open>web\<close>.
\<close>

definition exit_ok :: "'a \<Rightarrow> 'a exec_result" where
  "exit_ok v = \<lparr>code = 0, stdout = Some v\<rparr>"

definition exit_failed :: "'a exec_result" where
  "exit_failed = \<lparr>code = 1, stdout = None\<rparr>"

definition starts_with :: "string \<Rightarrow> string \<Rightarrow> bool" where
  "starts_with p s = (take (length p) s = p)"

definition sample_listing :: "IAZResource list" where
  "sample_listing =
     [\<lparr>id_res = ''/vm/1'', name = ''web-1''\<rparr>, \<lparr>id_res = ''/vm/2'', name = ''web-2''\<rparr>,
      \<lparr>id_res = ''/vm/3'', name = ''db-1''\<rparr>]"

definition series_payload :: "IMetricDataPoint list \<Rightarrow> metrics_payload" where
  "series_payload ps = \<lparr>payload_value = [\<lparr>timeseries = Val [\<lparr>data = Val ps\<rparr>]\<rparr>]\<rparr>"

definition sample_world :: "(string \<Rightarrow> metrics_payload exec_result) \<Rightarrow> unit world" where
  "sample_world metrics =
     \<lparr>exec_resource_list = (\<lambda>c. exit_ok sample_listing),
      exec_metrics_list = metrics,
      RegExp = (\<lambda>p. if p = ''^web'' then Some (starts_with ''web'') else None),
      toISOString = (\<lambda>t. ''2024-01-01T00:00:00.000Z'')\<rparr>"

definition sample_options :: IAZPluginOptions where
  "sample_options = \<lparr>resource_group = None, resource_type = None, metric_opt = None, filter_opt = None\<rparr>"

definition sample_args :: ITSAPluginArgs where
  "sample_args = \<lparr>args_start = 0, args_end = 86400000, step = 420000\<rparr>"

text \<open>
  Metrics commands for the samples: one that fails for the second resource; a payload
  with an empty \<open>value\<close> array, hence without a \<open>timeseries\<close> array; a point without any
  value; and a command that
  answers the first resource with an empty \<open>timeseries\<close> array, the second with a series
  of one point without a value, and the others with a series of one point.
\<close>

definition failing_second :: "string \<Rightarrow> metrics_payload exec_result" where
  "failing_second c =
     (if starts_with ''az monitor metrics list --resource /vm/2 '' c then exit_failed
      else exit_ok (series_payload []))"

definition without_timeseries :: metrics_payload where
  "without_timeseries = \<lparr>payload_value = []\<rparr>"

definition gap_point :: IMetricDataPoint where
  "gap_point = \<lparr>average = Null, maximum = Undefined, minimum = Undefined, timeStamp = ''2024-01-01T00:00:00Z''\<rparr>"

definition mixed_metrics :: "string \<Rightarrow> metrics_payload exec_result" where
  "mixed_metrics c =
     (if starts_with ''az monitor metrics list --resource /vm/1 '' c
        then exit_ok \<lparr>payload_value = [\<lparr>timeseries = Val []\<rparr>]\<rparr>
      else if starts_with ''az monitor metrics list --resource /vm/2 '' c
        then exit_ok (series_payload [gap_point])
      else exit_ok (series_payload [gap_point\<lparr>average := Val (Fin 42)\<rparr>]))"

text \<open>
  Two resources of one name in different resource groups: the command of the first
  answers with a series of one point without a value, that of the second with a series
  of one point.
\<close>

definition twin_listing :: "IAZResource list" where
  "twin_listing =
     [\<lparr>id_res = ''/group-a/vm'', name = ''web-1''\<rparr>, \<lparr>id_res = ''/group-b/vm'', name = ''web-1''\<rparr>]"

definition twin_metrics :: "string \<Rightarrow> metrics_payload exec_result" where
  "twin_metrics c =
     (if starts_with ''az monitor metrics list --resource /group-a/vm '' c
        then exit_ok (series_payload [gap_point])
      else exit_ok (series_payload [gap_point\<lparr>average := Val (Fin 42)\<rparr>]))"

definition twin_world :: "unit world" where
  "twin_world = (sample_world twin_metrics)\<lparr>exec_resource_list := (\<lambda>c. exit_ok twin_listing)\<rparr>"

section \<open>Properties\<close>

subsection \<open>Interval quantizer\<close>

lemma validIntervals_eval:
  "validIntervals =
     [\<lparr>display = ''1m'', ms = 60000\<rparr>, \<lparr>display = ''5m'', ms = 300000\<rparr>,
      \<lparr>display = ''15m'', ms = 900000\<rparr>, \<lparr>display = ''30m'', ms = 1800000\<rparr>,
      \<lparr>display = ''1h'', ms = 3600000\<rparr>, \<lparr>display = ''6h'', ms = 21600000\<rparr>,
      \<lparr>display = ''12h'', ms = 43200000\<rparr>, \<lparr>display = ''1d'', ms = 86400000\<rparr>]"
  by (simp add: validIntervals_def timestring_def unit_ms_def digit_val_def is_digit_def)

lemma closer_cases: "closer s b v = b \<or> closer s b v = v"
  by (simp add: closer_def)

lemma foldl_closer_mem: "foldl (closer s) b xs \<in> set (b # xs)"
proof (induction xs arbitrary: b)
  case Nil
  show ?case by simp
next
  case (Cons x xs)
  from Cons.IH [of "closer s b x"] closer_cases [of s b x]
  show ?case by auto
qed

lemma foldl_closer_le_seed: "\<bar>ms (foldl (closer s) b xs) - s\<bar> \<le> \<bar>ms b - s\<bar>"
proof (induction xs arbitrary: b)
  case Nil
  show ?case by simp
next
  case (Cons x xs)
  have "\<bar>ms (closer s b x) - s\<bar> \<le> \<bar>ms b - s\<bar>"
    by (simp add: closer_def)
  with Cons.IH [of "closer s b x"] show ?case by simp
qed

lemma foldl_closer_min:
  "x \<in> set (b # xs) \<Longrightarrow> \<bar>ms (foldl (closer s) b xs) - s\<bar> \<le> \<bar>ms x - s\<bar>"
proof (induction xs arbitrary: b)
  case Nil
  then show ?case by simp
next
  case (Cons y ys)
  have step: "\<bar>ms (closer s b y) - s\<bar> \<le> \<bar>ms b - s\<bar>" "\<bar>ms (closer s b y) - s\<bar> \<le> \<bar>ms y - s\<bar>"
    by (simp_all add: closer_def)
  from Cons.prems consider "x = b" | "x = y" | "x \<in> set ys" by auto
  then show ?case
  proof cases
    case 1
    with step(1) foldl_closer_le_seed [of s "closer s b y" ys] show ?thesis by simp
  next
    case 2
    with step(2) foldl_closer_le_seed [of s "closer s b y" ys] show ?thesis by simp
  next
    case 3
    with Cons.IH [of "closer s b y"] show ?thesis by simp
  qed
qed

lemma foldl_closer_first:
  "sorted (map ms (b # xs)) \<Longrightarrow> x \<in> set (b # xs) \<Longrightarrow>
   \<bar>ms x - s\<bar> = \<bar>ms (foldl (closer s) b xs) - s\<bar> \<Longrightarrow> ms (foldl (closer s) b xs) \<le> ms x"
proof (induction xs arbitrary: b x)
  case Nil
  then show ?case by simp
next
  case (Cons y ys)
  let ?b = "closer s b y"
  let ?r = "foldl (closer s) ?b ys"
  have r: "foldl (closer s) b (y # ys) = ?r" by simp
  have bley: "ms b \<le> ms y" using Cons.prems(1) by simp
  have srt: "sorted (map ms (?b # ys))"
    using Cons.prems(1) closer_cases [of s b y] by auto
  have tie: "\<bar>ms x - s\<bar> = \<bar>ms ?r - s\<bar>" using Cons.prems(3) by simp
  have rb: "\<bar>ms ?r - s\<bar> \<le> \<bar>ms ?b - s\<bar>" by (rule foldl_closer_le_seed)
  from Cons.prems(2) consider "x = b" | "x = y" | "x \<in> set ys" by auto
  then have "ms ?r \<le> ms x"
  proof cases
    case 1
    have "?b = b" using tie rb 1 by (auto simp: closer_def split: if_splits)
    then show ?thesis using Cons.IH [of "closer s b y" x] srt tie 1 by simp
  next
    case 2
    show ?thesis
    proof (cases "?b = y")
      case True
      then show ?thesis using Cons.IH [of "closer s b y" x] srt tie 2 by simp
    next
      case False
      then have bb: "?b = b" and le: "\<bar>ms b - s\<bar> \<le> \<bar>ms y - s\<bar>"
        by (auto simp: closer_def split: if_splits)
      have "\<bar>ms b - s\<bar> = \<bar>ms ?r - s\<bar>" using rb tie le bb 2 by simp
      then have "ms ?r \<le> ms b" using Cons.IH [of "closer s b y" b] srt bb by simp
      then show ?thesis using bley 2 by simp
    qed
  next
    case 3
    then show ?thesis using Cons.IH [of "closer s b y" x] srt tie by simp
  qed
  then show ?case by simp
qed

lemma getValidInterval_seven_minutes: "getValidInterval 420000 = ''5m''"
  by (simp add: getValidInterval_def closestMatch_def validIntervals_eval closer_def)

text \<open>
  C1. For every step in milliseconds, \<open>getValidInterval\<close> returns the display string of a
  catalog entry whose duration is at least as close to the step as that of every catalog
  entry, and among equally close entries it is the smaller one (the catalog is ascending,
  so the earlier one). It is a total function: there is no error path. The catalog is
  the eight entries of \<open>validIntervals_eval\<close>.
\<close>

theorem getValidInterval_nearest:
  "\<exists>best \<in> set validIntervals.
     getValidInterval stepMS = display best \<and>
     (\<forall>v \<in> set validIntervals.
        \<bar>ms best - stepMS\<bar> \<le> \<bar>ms v - stepMS\<bar> \<and>
        (\<bar>ms v - stepMS\<bar> = \<bar>ms best - stepMS\<bar> \<longrightarrow> ms best \<le> ms v))"
proof -
  let ?b = "validIntervals ! 0"
  have "?b \<in> set validIntervals" by (simp add: validIntervals_eval)
  then have sets: "set (?b # validIntervals) = set validIntervals" by auto
  have srt: "sorted (map ms (?b # validIntervals))" by (simp add: validIntervals_eval)
  have mem: "closestMatch stepMS \<in> set validIntervals"
    using foldl_closer_mem [of stepMS ?b validIntervals] sets by (simp only: closestMatch_def)
  have near: "\<bar>ms (closestMatch stepMS) - stepMS\<bar> \<le> \<bar>ms v - stepMS\<bar>"
    if "v \<in> set validIntervals" for v
    using foldl_closer_min [of v ?b validIntervals stepMS] that sets by (simp only: closestMatch_def)
  have first: "ms (closestMatch stepMS) \<le> ms v"
    if "v \<in> set validIntervals" "\<bar>ms v - stepMS\<bar> = \<bar>ms (closestMatch stepMS) - stepMS\<bar>" for v
    using foldl_closer_first [OF srt, of v stepMS] that sets by (simp only: closestMatch_def)
  show ?thesis
    using mem near first by (intro bexI [of _ "closestMatch stepMS"]) (simp_all add: getValidInterval_def)
qed

text \<open>Ten minutes is the midpoint of 5m and 15m: the theorem leaves only 5m.\<close>

theorem getValidInterval_nearest_witness: "getValidInterval 600000 = ''5m''"
  using getValidInterval_nearest [of 600000] by (auto simp: validIntervals_eval)

subsection \<open>Data point normalizer\<close>

text \<open>
  C7. A reduced value \<open>v\<close> of the RAM metric is normalized to \<open>v\<close> divided by
  1,000,000,000; for the metrics cpu, memory_percent and disk the value is returned
  unchanged.
\<close>

theorem transformValue_units:
  "transformValue (Val (Fin v)) ram = Val (Fin (v / 1000000000)) \<and>
   transformValue x cpu = x \<and> transformValue x memory_percent = x \<and> transformValue x disk = x"
  by (simp add: transformValue_def ToNumber_def divide_by_def)

lemma transformValue_examples:
  "transformValue (Val (Fin 2000000000)) ram = Val (Fin 2) \<and> transformValue (Val (Fin 42)) cpu = Val (Fin 42)"
  by (simp add: transformValue_def ToNumber_def divide_by_def)

lemma mapTimeSeriesDataPoint_reduce:
  "mapTimeSeriesDataPoint p m =
     (case reduce_priority p of
        None \<Rightarrow> None
      | Some v \<Rightarrow> Some (Date (timeStamp p), transformValue (Val v) m))"
  by (simp add: mapTimeSeriesDataPoint_def reduce_priority_def nullish_def Let_def split: js.splits)

lemma normalizeSeries_Cons:
  "normalizeSeries (p # ps) m =
     (case mapTimeSeriesDataPoint p m of None \<Rightarrow> normalizeSeries ps m | Some y \<Rightarrow> y # normalizeSeries ps m)"
  by (simp add: normalizeSeries_def split: option.splits)

text \<open>
  C3. A raw point is reduced to its average if that is present and not null, else to its
  minimum, else to its maximum (\<open>reduce_priority\<close>), and mapped to its timestamp with the
  transformed value; a point with none of the three is mapped to null. The series keeps,
  in the order of the input, one normalized point for every raw point that has a value
  and nothing for the others.
\<close>

theorem normalizeSeries_priority:
  "mapTimeSeriesDataPoint p m =
     (case reduce_priority p of
        None \<Rightarrow> None
      | Some v \<Rightarrow> Some (Date (timeStamp p), transformValue (Val v) m)) \<and>
   normalizeSeries [] m = [] \<and>
   normalizeSeries (p # ps) m =
     (case reduce_priority p of
        None \<Rightarrow> normalizeSeries ps m
      | Some v \<Rightarrow> (Date (timeStamp p), transformValue (Val v) m) # normalizeSeries ps m)"
  by (simp add: normalizeSeries_Cons mapTimeSeriesDataPoint_reduce normalizeSeries_def split: option.splits)

theorem normalizeSeries_priority_witness:
  "normalizeSeries
     [\<lparr>average = Val (Fin 5), maximum = Val (Fin 9), minimum = Val (Fin 1), timeStamp = ''t1''\<rparr>,
      \<lparr>average = Undefined, maximum = Undefined, minimum = Null, timeStamp = ''t2''\<rparr>,
      \<lparr>average = Undefined, maximum = Val (Fin 9), minimum = Val (Fin 1), timeStamp = ''t3''\<rparr>,
      \<lparr>average = Null, maximum = Val (Fin 9), minimum = Undefined, timeStamp = ''t4''\<rparr>] cpu =
     [(Date ''t1'', Val (Fin 5)), (Date ''t3'', Val (Fin 1)), (Date ''t4'', Val (Fin 9))]"
  by (simp add: normalizeSeries_priority reduce_priority_def transformValue_def)

text \<open>
  C10. The legacy variant keeps a raw point exactly when its average is not null, and the
  value of a kept point is the transform of its average: a point without an average
  (\<open>undefined\<close>) is kept, with the transform of \<open>undefined\<close> as its value. Whatever the
  minimum and maximum of the points are, the series is the same.
\<close>

theorem normalizeSeries_legacy_average_only:
  "normalizeSeries_legacy [] m = [] \<and>
   normalizeSeries_legacy (p # ps) m =
     (if average p = Null then normalizeSeries_legacy ps m
      else (Date (timeStamp p), transformValue (average p) m) # normalizeSeries_legacy ps m) \<and>
   normalizeSeries_legacy [p\<lparr>average := Undefined\<rparr>] m = [(Date (timeStamp p), transformValue Undefined m)] \<and>
   normalizeSeries_legacy (map (\<lambda>x. x\<lparr>minimum := lo x, maximum := hi x\<rparr>) ps) m = normalizeSeries_legacy ps m"
  by (simp add: normalizeSeries_legacy_def filter_map comp_def)

theorem normalizeSeries_legacy_average_only_witness:
  "normalizeSeries_legacy
     [\<lparr>average = Undefined, maximum = Val (Fin 9), minimum = Val (Fin 1), timeStamp = ''t1''\<rparr>,
      \<lparr>average = Null, maximum = Val (Fin 9), minimum = Val (Fin 1), timeStamp = ''t2''\<rparr>,
      \<lparr>average = Val (Fin 3000000000), maximum = Undefined, minimum = Undefined, timeStamp = ''t3''\<rparr>] ram =
     [(Date ''t1'', Val NaN), (Date ''t3'', Val (Fin 3))]"
  by (simp add: normalizeSeries_legacy_average_only transformValue_def ToNumber_def divide_by_def)

subsection \<open>Running the external tool\<close>

lemma azAsync_ok:
  "code (exec (trim (''az '' @ c))) = 0 \<Longrightarrow> stdout (exec (trim (''az '' @ c))) = Some d \<Longrightarrow> azAsync exec c = Inr d"
  by (simp add: azAsync_def execOrFailAsync_def JSON_parse_def)

lemma az_ok:
  "code (exec (trim (''az '' @ c))) = 0 \<Longrightarrow> stdout (exec (trim (''az '' @ c))) = Some d \<Longrightarrow> az exec c = Inr d"
  by (simp add: az_def execOrFail_def JSON_parse_def)

lemma execOrFailAsync_failure:
  "execOrFailAsync exec c = Inl e \<Longrightarrow> e = ProcessExit 1 (CommandFailed c)"
  by (simp add: execOrFailAsync_def Let_def split: if_splits)

lemma JSON_parse_failure: "JSON_parse out = Inl e \<Longrightarrow> e = Throw SyntaxError"
  by (simp add: JSON_parse_def split: option.splits)

lemma selectSeries_failure: "selectSeries d = Inl e \<Longrightarrow> e = Throw TypeError"
  by (simp add: selectSeries_def split: js.splits)

lemma azAsync_failure:
  "azAsync exec c = Inl e \<Longrightarrow> e = ProcessExit 1 (CommandFailed (''az '' @ c)) \<or> e = Throw SyntaxError"
  unfolding azAsync_def
  by (cases "execOrFailAsync exec (''az '' @ c)")
     (auto dest: execOrFailAsync_failure JSON_parse_failure)

lemma getTimeSeries_failure:
  "getTimeSeries w i fl = Inl e \<Longrightarrow> (\<exists>c. e = ProcessExit 1 (CommandFailed c)) \<or> (\<exists>t. e = Throw t)"
  unfolding getTimeSeries_def
  by (cases "azAsync (exec_metrics_list w) (metricsListCommand i fl)")
     (auto dest: azAsync_failure selectSeries_failure)

lemma catch_exit_code: "getTimeSeries w i fl = Inl e \<Longrightarrow> \<exists>d. catch_exit e = ProcessExit 1 d"
  by (auto dest!: getTimeSeries_failure simp: catch_exit_def)

lemma getVMIds_nonzero:
  "code (exec_resource_list w (trim (''az '' @ resourceListCommand options))) \<noteq> 0 \<Longrightarrow>
   getVMIds w options = Inl (ProcessExit 1 (CommandFailed (''az '' @ resourceListCommand options)))"
  by (simp add: getVMIds_def az_def execOrFail_def)

lemma getTimeSeries_nonzero:
  "code (exec_metrics_list w (trim (''az '' @ metricsListCommand i fl))) \<noteq> 0 \<Longrightarrow>
   getTimeSeries w i fl = Inl (ProcessExit 1 (CommandFailed (''az '' @ metricsListCommand i fl)))"
  by (simp add: getTimeSeries_def azAsync_def execOrFailAsync_def)

subsection \<open>Time-series fetcher\<close>

lemma getTimeSeries_ok:
  "code (exec_metrics_list w (trim (''az '' @ metricsListCommand i opts))) = 0 \<Longrightarrow>
   stdout (exec_metrics_list w (trim (''az '' @ metricsListCommand i opts))) = Some d \<Longrightarrow>
   getTimeSeries w i opts = selectSeries d"
  by (simp add: getTimeSeries_def azAsync_ok)

lemma selectSeries_present:
  "payload_value d = e # es \<Longrightarrow> timeseries e = Val ts \<Longrightarrow>
   selectSeries d = Inr (if ts = [] then Null else data (ts ! 0))"
  by (simp add: selectSeries_def firstTimeseries_def)

lemma selectSeries_throws:
  "selectSeries d = Inl (Throw TypeError) \<longleftrightarrow>
   \<not> (\<exists>e es ts. payload_value d = e # es \<and> timeseries e = Val ts)"
  by (auto simp: selectSeries_def firstTimeseries_def split: list.splits js.splits)

text \<open>
  C9. When the command of a resource has succeeded with a parsed payload: if the
  \<open>value\<close> array has a first element and that element carries a \<open>timeseries\<close> array, the
  fetch returns null for an empty array and else the \<open>data\<close> of the array's first element;
  the read of \<open>length\<close> throws a TypeError exactly when that precondition fails, and so
  for an empty \<open>value\<close> array.
\<close>

theorem getTimeSeries_unguarded:
  assumes "code (exec_metrics_list w (trim (''az '' @ metricsListCommand i opts))) = 0"
    and "stdout (exec_metrics_list w (trim (''az '' @ metricsListCommand i opts))) = Some d"
  shows "(\<forall>e es ts. payload_value d = e # es \<and> timeseries e = Val ts \<longrightarrow>
            getTimeSeries w i opts = Inr (if ts = [] then Null else data (ts ! 0))) \<and>
         (getTimeSeries w i opts = Inl (Throw TypeError) \<longleftrightarrow>
            \<not> (\<exists>e es ts. payload_value d = e # es \<and> timeseries e = Val ts)) \<and>
         (payload_value d = [] \<longrightarrow> getTimeSeries w i opts = Inl (Throw TypeError))"
proof -
  have eq: "getTimeSeries w i opts = selectSeries d"
    using assms by (rule getTimeSeries_ok)
  have "payload_value d = [] \<longrightarrow> selectSeries d = Inl (Throw TypeError)"
    by (simp add: selectSeries_throws)
  then show ?thesis
    unfolding eq using selectSeries_present [of d] selectSeries_throws [of d] by blast
qed

theorem getTimeSeries_unguarded_witness:
  "code (exec_metrics_list (sample_world (\<lambda>c. exit_ok (series_payload [])))
      (trim (''az '' @ metricsListCommand ''/vm/1'' ''--interval 5m''))) = 0 \<and>
   stdout (exec_metrics_list (sample_world (\<lambda>c. exit_ok (series_payload [])))
      (trim (''az '' @ metricsListCommand ''/vm/1'' ''--interval 5m''))) = Some (series_payload []) \<and>
   getTimeSeries (sample_world (\<lambda>c. exit_ok (series_payload []))) ''/vm/1'' ''--interval 5m'' = Inr (Val [])"
proof -
  let ?w = "sample_world (\<lambda>c. exit_ok (series_payload []))"
  have h1: "code (exec_metrics_list ?w (trim (''az '' @ metricsListCommand ''/vm/1'' ''--interval 5m''))) = 0"
    by (simp add: sample_world_def exit_ok_def)
  have h2: "stdout (exec_metrics_list ?w (trim (''az '' @ metricsListCommand ''/vm/1'' ''--interval 5m''))) =
      Some (series_payload [])"
    by (simp add: sample_world_def exit_ok_def)
  show ?thesis
    using getTimeSeries_unguarded [OF h1 h2] h1 h2 by (simp add: series_payload_def)
qed

subsection \<open>Resource lister\<close>

lemma filter_throwing_total: "filter_throwing (\<lambda>x. Inr (P x)) xs = Inr (filter P xs)"
  by (induction xs) simp_all

lemma filter_throwing_raises: "xs \<noteq> [] \<Longrightarrow> filter_throwing (\<lambda>x. Inl e) xs = Inl e"
  by (cases xs) simp_all

text \<open>
  C8. Given the resources that the listing command returned: with an absent or empty
  pattern all of them are returned; with a pattern that \<open>RegExp\<close>, called without flags,
  accepts, exactly those whose name the expression's \<open>test\<close> finds a match in; in both
  cases in the order of the listing, reduced to their id and name.
\<close>

theorem getVMIds_filter:
  assumes "az (exec_resource_list w) (resourceListCommand options) = Inr listed"
  shows "(filter_opt options = None \<or> filter_opt options = Some [] \<longrightarrow>
            getVMIds w options = Inr (map (\<lambda>x. \<lparr>id_res = id_res x, name = name x\<rparr>) listed)) \<and>
         (\<forall>p test. filter_opt options = Some p \<and> p \<noteq> [] \<and> RegExp w p = Some test \<longrightarrow>
            getVMIds w options =
              Inr (map (\<lambda>x. \<lparr>id_res = id_res x, name = name x\<rparr>) (filter (\<lambda>x. test (name x)) listed)))"
proof (intro conjI allI impI)
  assume "filter_opt options = None \<or> filter_opt options = Some []"
  then have "nameFilter w options = (\<lambda>x. Inr True)"
    by (auto simp: nameFilter_def fun_eq_iff)
  then show "getVMIds w options = Inr (map (\<lambda>x. \<lparr>id_res = id_res x, name = name x\<rparr>) listed)"
    using assms filter_throwing_total [of "\<lambda>x. True" listed] by (simp add: getVMIds_def)
next
  fix p test
  assume "filter_opt options = Some p \<and> p \<noteq> [] \<and> RegExp w p = Some test"
  then have "nameFilter w options = (\<lambda>x. Inr (test (name x)))"
    by (auto simp: nameFilter_def fun_eq_iff)
  then show "getVMIds w options =
      Inr (map (\<lambda>x. \<lparr>id_res = id_res x, name = name x\<rparr>) (filter (\<lambda>x. test (name x)) listed))"
    using assms filter_throwing_total [of "\<lambda>x. test (name x)" listed] by (simp add: getVMIds_def)
qed

theorem getVMIds_filter_witness:
  "az (exec_resource_list (sample_world (\<lambda>c. exit_failed)))
      (resourceListCommand (sample_options\<lparr>filter_opt := Some ''^web''\<rparr>)) = Inr sample_listing \<and>
   getVMIds (sample_world (\<lambda>c. exit_failed)) (sample_options\<lparr>filter_opt := Some ''^web''\<rparr>) =
     Inr [\<lparr>id_res = ''/vm/1'', name = ''web-1''\<rparr>, \<lparr>id_res = ''/vm/2'', name = ''web-2''\<rparr>] \<and>
   getVMIds (sample_world (\<lambda>c. exit_failed)) (sample_options\<lparr>filter_opt := Some []\<rparr>) = Inr sample_listing"
proof -
  let ?w = "sample_world (\<lambda>c. exit_failed)"
  have h: "az (exec_resource_list ?w) (resourceListCommand opts) = Inr sample_listing" for opts
    by (simp add: az_def execOrFail_def JSON_parse_def sample_world_def exit_ok_def)
  have re: "RegExp ?w ''^web'' = Some (starts_with ''web'')"
    by (simp add: sample_world_def)
  show ?thesis
    using getVMIds_filter [OF h [of "sample_options\<lparr>filter_opt := Some ''^web''\<rparr>"]]
      getVMIds_filter [OF h [of "sample_options\<lparr>filter_opt := Some []\<rparr>"]] h re
    by (simp add: sample_listing_def starts_with_def)
qed

lemma getVMIds_invalid_pattern:
  assumes "az (exec_resource_list w) (resourceListCommand options) = Inr listed"
    and "filter_opt options = Some p" "p \<noteq> []" "RegExp w p = None" "listed \<noteq> []"
  shows "getVMIds w options = Inl (Throw SyntaxError)"
proof -
  have "nameFilter w options = (\<lambda>x. Inl (Throw SyntaxError))"
    using assms by (auto simp: nameFilter_def fun_eq_iff)
  then show ?thesis
    using assms(1,5) filter_throwing_raises [of listed "Throw SyntaxError"] by (simp add: getVMIds_def)
qed

subsection \<open>Metric name resolver\<close>

lemma table_names_nonempty:
  "map_of metricNamesForResourceType t = Some sub \<Longrightarrow> map_of sub m = Some n \<Longrightarrow> n \<noteq> []"
  by (auto simp: metricNamesForResourceType_def split: if_splits)

lemma mapMetricName_present:
  "map_of metricNamesForResourceType (resourceTypeOrDefault options) = Some sub \<Longrightarrow>
   map_of sub m = Some n \<Longrightarrow> mapMetricName options m = Inr n"
  using table_names_nonempty [of "resourceTypeOrDefault options" sub m n]
  by (simp add: mapMetricName_def)

lemma mapMetricName_absent:
  "map_of metricNamesForResourceType (resourceTypeOrDefault options) = None \<or>
   (\<exists>sub. map_of metricNamesForResourceType (resourceTypeOrDefault options) = Some sub \<and> map_of sub m = None) \<Longrightarrow>
   mapMetricName options m = Inl (ProcessExit 1 (MetricNotSupported m (resourceTypeOrDefault options)))"
  by (auto simp: mapMetricName_def)

lemma execute_unsupported:
  "mapMetricName options (requestedMetric options) = Inl e \<Longrightarrow>
   events (execute w args options order) = [] \<and> returned (execute w args options order) = Inl e"
  by (simp add: execute_def returned_def Let_def)

text \<open>
  C5. For a resource type and metric that the table holds, \<open>mapMetricName\<close> returns the
  configured string. When the resource type is not in the table, or the metric is not in
  the sub-mapping of the resource type, it ends the process with the message that the
  metric is not supported; a run whose requested metric is that one has then started no
  command and written no progress line.
\<close>

theorem mapMetricName_resolves:
  "(\<forall>sub n. map_of metricNamesForResourceType (resourceTypeOrDefault options) = Some sub \<and>
      map_of sub m = Some n \<longrightarrow> mapMetricName options m = Inr n) \<and>
   (map_of metricNamesForResourceType (resourceTypeOrDefault options) = None \<or>
    (\<exists>sub. map_of metricNamesForResourceType (resourceTypeOrDefault options) = Some sub \<and> map_of sub m = None) \<longrightarrow>
      mapMetricName options m = Inl (ProcessExit 1 (MetricNotSupported m (resourceTypeOrDefault options))) \<and>
      (requestedMetric options = m \<longrightarrow>
         events (execute w args options order) = [] \<and>
         returned (execute w args options order) =
           Inl (ProcessExit 1 (MetricNotSupported m (resourceTypeOrDefault options)))))"
proof (intro conjI allI impI)
  fix sub n
  assume "map_of metricNamesForResourceType (resourceTypeOrDefault options) = Some sub \<and> map_of sub m = Some n"
  then show "mapMetricName options m = Inr n"
    using mapMetricName_present by blast
next
  assume absent: "map_of metricNamesForResourceType (resourceTypeOrDefault options) = None \<or>
    (\<exists>sub. map_of metricNamesForResourceType (resourceTypeOrDefault options) = Some sub \<and> map_of sub m = None)"
  then show fails: "mapMetricName options m =
      Inl (ProcessExit 1 (MetricNotSupported m (resourceTypeOrDefault options)))"
    by (rule mapMetricName_absent)
  assume "requestedMetric options = m"
  then have "mapMetricName options (requestedMetric options) =
      Inl (ProcessExit 1 (MetricNotSupported m (resourceTypeOrDefault options)))"
    using fails by simp
  from execute_unsupported [OF this, of w args order]
  show "events (execute w args options order) = []"
    and "returned (execute w args options order) =
      Inl (ProcessExit 1 (MetricNotSupported m (resourceTypeOrDefault options)))"
    by simp_all
qed

theorem mapMetricName_resolves_witness:
  "mapMetricName sample_options cpu = Inr ''Percentage CPU'' \<and>
   mapMetricName (sample_options\<lparr>resource_type := Some ''Microsoft.DBforMySQL/flexibleServers''\<rparr>) disk =
     Inr ''storage_percent'' \<and>
   returned (execute (sample_world (\<lambda>c. exit_failed)) sample_args
       (sample_options\<lparr>metric_opt := Some disk\<rparr>) sample_listing) =
     Inl (ProcessExit 1 (MetricNotSupported disk ''Microsoft.Compute/virtualMachines'')) \<and>
   events (execute (sample_world (\<lambda>c. exit_failed)) sample_args
       (sample_options\<lparr>metric_opt := Some disk\<rparr>) sample_listing) = []"
proof -
  let ?vm = "[(cpu, ''Percentage CPU''), (ram, ''Available Memory Bytes'')]"
  let ?db = "[(cpu, ''cpu_percent''), (memory_percent, ''memory_percent''), (disk, ''storage_percent'')]"
  let ?dbo = "sample_options\<lparr>resource_type := Some ''Microsoft.DBforMySQL/flexibleServers''\<rparr>"
  let ?disko = "sample_options\<lparr>metric_opt := Some disk\<rparr>"
  have a: "map_of metricNamesForResourceType (resourceTypeOrDefault sample_options) = Some ?vm \<and>
      map_of ?vm cpu = Some ''Percentage CPU''"
    by (simp add: metricNamesForResourceType_def resourceTypeOrDefault_def sample_options_def
        defaultResourceType_def)
  have b: "map_of metricNamesForResourceType (resourceTypeOrDefault ?dbo) = Some ?db \<and>
      map_of ?db disk = Some ''storage_percent''"
    by (simp add: metricNamesForResourceType_def resourceTypeOrDefault_def sample_options_def)
  have c: "map_of metricNamesForResourceType (resourceTypeOrDefault ?disko) = Some ?vm \<and>
      map_of ?vm disk = None"
    by (simp add: metricNamesForResourceType_def resourceTypeOrDefault_def sample_options_def
        defaultResourceType_def)
  have d: "requestedMetric ?disko = disk" "resourceTypeOrDefault ?disko = ''Microsoft.Compute/virtualMachines''"
    by (simp_all add: requestedMetric_def resourceTypeOrDefault_def sample_options_def defaultResourceType_def)
  show ?thesis
    using mapMetricName_resolves [of sample_options cpu] a
      mapMetricName_resolves [of ?dbo disk] b
      mapMetricName_resolves [of ?disko disk "sample_world (\<lambda>c. exit_failed)" sample_args sample_listing] c d
    by simp
qed

subsection \<open>Collection orchestrator\<close>

lemma settle_ok:
  "getTimeSeries w (id_res vm) fl = Inr raw \<Longrightarrow>
   settle w fl m n st vm =
     st\<lparr>labeled := (case raw of Val rs \<Rightarrow> (labeled st)(name vm \<mapsto> normalizeSeries rs m) | _ \<Rightarrow> labeled st),
        completedQueries := completedQueries st + 1,
        events := events st @ [Progress (completedQueries st + 1) n]\<rparr>"
  by (simp add: settle_def Let_def split: js.splits)

lemma settle_failed:
  "getTimeSeries w (id_res vm) fl = Inl e \<Longrightarrow> settle w fl m n st vm = st\<lparr>exited := Some (catch_exit e)\<rparr>"
  by (simp add: settle_def)

lemma upt_shift: "[Suc c ..< Suc c + Suc k] = Suc c # [Suc (Suc c) ..< Suc (Suc c) + k]"
  by (metis add_Suc add_Suc_right less_add_Suc1 upt_conv_Cons)

lemma settle_all_events_count:
  "exited st = None \<Longrightarrow>
   events (settle_all w fl m n st order) =
     events st @ map (\<lambda>j. Progress j n)
       [Suc (completedQueries st) ..<
        Suc (completedQueries st) + length (takeWhile (\<lambda>vm. \<not> isl (getTimeSeries w (id_res vm) fl)) order)] \<and>
   (exited (settle_all w fl m n st order) = None \<longleftrightarrow>
      length (takeWhile (\<lambda>vm. \<not> isl (getTimeSeries w (id_res vm) fl)) order) = length order)"
proof (induction order arbitrary: st)
  case Nil
  then show ?case by simp
next
  case (Cons vm rest)
  show ?case
  proof (cases "getTimeSeries w (id_res vm) fl")
    case (Inl e)
    then show ?thesis by (simp add: settle_failed)
  next
    case (Inr raw)
    let ?st = "settle w fl m n st vm"
    let ?k = "length (takeWhile (\<lambda>vm. \<not> isl (getTimeSeries w (id_res vm) fl)) rest)"
    have st': "exited ?st = None" "completedQueries ?st = Suc (completedQueries st)"
      "events ?st = events st @ [Progress (Suc (completedQueries st)) n]"
      using Cons.prems by (simp_all add: settle_ok [OF Inr])
    have unf: "settle_all w fl m n st (vm # rest) = settle_all w fl m n ?st rest"
      using st'(1) by simp
    have tk: "length (takeWhile (\<lambda>vm. \<not> isl (getTimeSeries w (id_res vm) fl)) (vm # rest)) = Suc ?k"
      using Inr by simp
    have up: "[Suc (completedQueries st) ..< Suc (completedQueries st) + Suc ?k] =
          Suc (completedQueries st) # [Suc (Suc (completedQueries st)) ..< Suc (Suc (completedQueries st)) + ?k]"
      by (rule upt_shift)
    show ?thesis
      unfolding unf tk up using Cons.IH [OF st'(1)] by (simp add: st'(2,3))
  qed
qed

lemma settle_all_exits:
  "exited st = None \<Longrightarrow> vm \<in> set order \<Longrightarrow> getTimeSeries w (id_res vm) fl = Inl e \<Longrightarrow>
   \<exists>d. exited (settle_all w fl m n st order) = Some (ProcessExit 1 d)"
proof (induction order arbitrary: st)
  case Nil
  then show ?case by simp
next
  case (Cons x rest)
  show ?case
  proof (cases "getTimeSeries w (id_res x) fl")
    case (Inl e')
    then show ?thesis
      using catch_exit_code [OF Inl] by (auto simp: settle_failed)
  next
    case (Inr raw)
    then have "x \<noteq> vm" using Cons.prems(3) by auto
    then have mem: "vm \<in> set rest" using Cons.prems(2) by simp
    have st': "exited (settle w fl m n st x) = None"
      using Cons.prems(1) by (simp add: settle_ok [OF Inr])
    then show ?thesis
      using Cons.IH [OF st' mem Cons.prems(3)] by simp
  qed
qed

lemma settle_all_returns:
  "exited (settle_all w fl m n st order) = None \<Longrightarrow> vm \<in> set order \<Longrightarrow>
   \<exists>raw. getTimeSeries w (id_res vm) fl = Inr raw"
proof (induction order arbitrary: st)
  case Nil
  then show ?case by simp
next
  case (Cons x rest)
  show ?case
  proof (cases "getTimeSeries w (id_res x) fl")
    case (Inl e)
    then show ?thesis using Cons.prems(1) by (simp add: settle_failed)
  next
    case (Inr raw)
    show ?thesis
    proof (cases "vm = x")
      case True
      then show ?thesis using Inr by simp
    next
      case False
      then have mem: "vm \<in> set rest" using Cons.prems(2) by simp
      have "exited (settle_all w fl m n (settle w fl m n st x) rest) = None"
        using Cons.prems(1) by (simp add: Let_def split: if_splits)
      then show ?thesis using Cons.IH mem by blast
    qed
  qed
qed

lemma settle_all_other_names:
  "\<forall>vm \<in> set order. name vm \<noteq> nm \<Longrightarrow> labeled (settle_all w fl m n st order) nm = labeled st nm"
proof (induction order arbitrary: st)
  case Nil
  then show ?case by simp
next
  case (Cons x rest)
  have nx: "name x \<noteq> nm" and rest: "\<forall>vm \<in> set rest. name vm \<noteq> nm"
    using Cons.prems by simp_all
  have one: "labeled (settle w fl m n st x) nm = labeled st nm"
    using nx by (cases "getTimeSeries w (id_res x) fl") (simp_all add: settle_failed settle_ok split: js.splits)
  show ?case
    using Cons.IH [OF rest, of "settle w fl m n st x"] one by (simp add: Let_def)
qed

lemma settle_all_dom:
  "exited (settle_all w fl m n st order) = None \<Longrightarrow>
   dom (labeled (settle_all w fl m n st order)) =
     dom (labeled st) \<union> {name vm | vm. vm \<in> set order \<and> (\<exists>rs. getTimeSeries w (id_res vm) fl = Inr (Val rs))}"
proof (induction order arbitrary: st)
  case Nil
  then show ?case by simp
next
  case (Cons x rest)
  show ?case
  proof (cases "getTimeSeries w (id_res x) fl")
    case (Inl e)
    then show ?thesis using Cons.prems by (simp add: settle_failed)
  next
    case (Inr raw)
    let ?st = "settle w fl m n st x"
    have fin: "exited (settle_all w fl m n ?st rest) = None"
      "settle_all w fl m n st (x # rest) = settle_all w fl m n ?st rest"
      using Cons.prems by (simp_all add: Let_def split: if_splits)
    have one: "dom (labeled ?st) =
        dom (labeled st) \<union> {name vm | vm. vm = x \<and> (\<exists>rs. getTimeSeries w (id_res vm) fl = Inr (Val rs))}"
      by (cases raw) (auto simp: settle_ok [OF Inr] Inr)
    show ?thesis
      unfolding fin(2) Cons.IH [OF fin(1)] one by auto
  qed
qed

lemma settle_all_unique_name:
  "exited (settle_all w fl m n st order) = None \<Longrightarrow> vm \<in> set order \<Longrightarrow>
   getTimeSeries w (id_res vm) fl = Inr (Val rs) \<Longrightarrow>
   \<forall>x \<in> set order. name x = name vm \<longrightarrow> x = vm \<Longrightarrow>
   labeled (settle_all w fl m n st order) (name vm) = Some (normalizeSeries rs m)"
proof (induction order arbitrary: st)
  case Nil
  then show ?case by simp
next
  case (Cons x rest)
  let ?st = "settle w fl m n st x"
  have uniq: "\<forall>y \<in> set rest. name y = name vm \<longrightarrow> y = vm"
    using Cons.prems(4) by simp
  show ?case
  proof (cases "getTimeSeries w (id_res x) fl")
    case (Inl e)
    then show ?thesis using Cons.prems(1) by (simp add: settle_failed)
  next
    case (Inr raw)
    have fin: "exited (settle_all w fl m n ?st rest) = None"
      "settle_all w fl m n st (x # rest) = settle_all w fl m n ?st rest"
      using Cons.prems(1) by (simp_all add: Let_def split: if_splits)
    show ?thesis
    proof (cases "vm \<in> set rest")
      case True
      then show ?thesis
        unfolding fin(2) using Cons.IH [OF fin(1) True Cons.prems(3) uniq] by simp
    next
      case False
      then have xv: "x = vm" using Cons.prems(2) by simp
      have none: "\<forall>y \<in> set rest. name y \<noteq> name vm"
        using uniq False by auto
      have "labeled ?st (name vm) = Some (normalizeSeries rs m)"
        using Cons.prems(3) xv by (simp add: settle_ok [of w vm fl "Val rs"])
      then show ?thesis
        unfolding fin(2) using settle_all_other_names [OF none, of w fl m n ?st] by simp
    qed
  qed
qed

lemma settle_all_last_write:
  "exited (settle_all w fl m n st (pre @ vm # post)) = None \<Longrightarrow>
   getTimeSeries w (id_res vm) fl = Inr (Val rs) \<Longrightarrow>
   \<forall>x \<in> set post. name x \<noteq> name vm \<Longrightarrow>
   labeled (settle_all w fl m n st (pre @ vm # post)) (name vm) = Some (normalizeSeries rs m)"
proof (induction pre arbitrary: st)
  case Nil
  let ?st = "settle w fl m n st vm"
  have stored: "labeled ?st (name vm) = Some (normalizeSeries rs m)"
    using Nil.prems(2) by (simp add: settle_ok [of w vm fl "Val rs"])
  have "settle_all w fl m n st ([] @ vm # post) = settle_all w fl m n ?st post"
    using Nil.prems(1) by (simp add: Let_def split: if_splits)
  then show ?case
    using settle_all_other_names [OF Nil.prems(3), of w fl m n ?st] stored by simp
next
  case (Cons x pre)
  let ?st = "settle w fl m n st x"
  have unf: "settle_all w fl m n st ((x # pre) @ vm # post) = settle_all w fl m n ?st (pre @ vm # post)"
    using Cons.prems(1) by (simp add: Let_def split: if_splits)
  then have "exited (settle_all w fl m n ?st (pre @ vm # post)) = None"
    using Cons.prems(1) by simp
  then show ?case
    unfolding unf using Cons.IH Cons.prems(2,3) by blast
qed

lemma execute_fan_out:
  "mapMetricName options (requestedMetric options) = Inr metricName \<Longrightarrow>
   getVMIds w options = Inr vmIds \<Longrightarrow>
   execute w args options order =
     settle_all w (timeSeriesFlags_of w args metricName) (requestedMetric options) (length vmIds)
       \<lparr>completedQueries = 0, labeled = Map.empty,
        events = fanned_out w args options metricName vmIds, exited = None\<rparr> order"
  by (simp add: execute_def fanned_out_def Let_def)

lemma execute_listing_failed:
  "mapMetricName options (requestedMetric options) = Inr metricName \<Longrightarrow>
   getVMIds w options = Inl e \<Longrightarrow>
   execute w args options order =
     \<lparr>completedQueries = 0, labeled = Map.empty,
      events = [Launch (trim (''az '' @ resourceListCommand options))], exited = Some (catch_exit e)\<rparr>"
  by (simp add: execute_def Let_def)

lemma launches_of_progress: "filter is_Launch (map (\<lambda>j. Progress j n) js) = []"
  by (induction js) simp_all

lemma launches_of_launches: "filter is_Launch (map (\<lambda>x. Launch (f x)) xs) = map (\<lambda>x. Launch (f x)) xs"
  by (induction xs) simp_all

lemma launches_drop: "filter is_Progress (map (\<lambda>x. Launch (f x)) xs) = []"
  by (induction xs) simp_all

lemma launches_fanned_out:
  "filter is_Launch (fanned_out w args options metricName vmIds) =
     Launch (trim (''az '' @ resourceListCommand options)) #
     map (\<lambda>vm. Launch (trim (''az '' @ metricsListCommand (id_res vm) (timeSeriesFlags_of w args metricName)))) vmIds"
  by (simp add: fanned_out_def launches_of_launches)

lemma sample_metric_name: "mapMetricName sample_options (requestedMetric sample_options) = Inr ''Percentage CPU''"
  by (simp add: mapMetricName_def requestedMetric_def sample_options_def resourceTypeOrDefault_def
      defaultResourceType_def metricNamesForResourceType_def)

lemma sample_getVMIds: "getVMIds (sample_world f) sample_options = Inr sample_listing"
  by (simp add: getVMIds_def az_def execOrFail_def JSON_parse_def sample_world_def exit_ok_def
      nameFilter_def sample_options_def filter_throwing_total sample_listing_def)

lemma sample_order:
  "mset [\<lparr>id_res = ''/vm/3'', name = ''db-1''\<rparr>, \<lparr>id_res = ''/vm/1'', name = ''web-1''\<rparr>,
         \<lparr>id_res = ''/vm/2'', name = ''web-2''\<rparr>] = mset sample_listing"
  by (simp add: sample_listing_def)

lemma sample_requested: "requestedMetric sample_options = cpu"
  by (simp add: requestedMetric_def sample_options_def)

text \<open>
  C4. In a run that has listed \<open>N\<close> resources, whatever the order in which the
  per-resource commands complete: the progress line \<open>(0, N)\<close> is written before any
  per-resource command is started, and after all of them are started the lines
  \<open>(1, N)\<close>, \<open>(2, N)\<close>, ... follow, one per handled completion, up to \<open>(k, N)\<close> with
  \<open>k \<le> N\<close>; when the run returns, \<open>k = N\<close>.
\<close>

theorem progress_events:
  assumes "mapMetricName options (requestedMetric options) = Inr metricName"
    and "getVMIds w options = Inr vmIds"
    and "mset order = mset vmIds"
  shows "\<exists>k \<le> length vmIds.
     events (execute w args options order) =
       [Launch (trim (''az '' @ resourceListCommand options)), Progress 0 (length vmIds)] @
       map (\<lambda>vm. Launch (trim (''az '' @ metricsListCommand (id_res vm) (timeSeriesFlags_of w args metricName)))) vmIds @
       map (\<lambda>j. Progress j (length vmIds)) [1 ..< Suc k] \<and>
     (exited (execute w args options order) = None \<longrightarrow> k = length vmIds)"
proof -
  let ?st = "\<lparr>completedQueries = 0, labeled = Map.empty,
        events = fanned_out w args options metricName vmIds, exited = None\<rparr>"
  let ?fl = "timeSeriesFlags_of w args metricName"
  let ?k = "length (takeWhile (\<lambda>vm. \<not> isl (getTimeSeries w (id_res vm) ?fl)) order)"
  have len: "length order = length vmIds"
    using assms(3) by (rule mset_eq_length)
  have run: "execute w args options order =
      settle_all w ?fl (requestedMetric options) (length vmIds) ?st order"
    using assms(1,2) by (rule execute_fan_out)
  have cnt: "events (settle_all w ?fl (requestedMetric options) (length vmIds) ?st order) =
      events ?st @ map (\<lambda>j. Progress j (length vmIds)) [Suc (completedQueries ?st) ..< Suc (completedQueries ?st) + ?k]"
    "exited (settle_all w ?fl (requestedMetric options) (length vmIds) ?st order) = None \<longleftrightarrow> ?k = length order"
    using settle_all_events_count [of ?st w ?fl "requestedMetric options" "length vmIds" order] by simp_all
  have "?k \<le> length vmIds"
    using length_takeWhile_le [of _ order] len by simp
  moreover have "events (execute w args options order) =
       [Launch (trim (''az '' @ resourceListCommand options)), Progress 0 (length vmIds)] @
       map (\<lambda>vm. Launch (trim (''az '' @ metricsListCommand (id_res vm) ?fl))) vmIds @
       map (\<lambda>j. Progress j (length vmIds)) [1 ..< Suc ?k]"
    unfolding run cnt(1) by (simp add: fanned_out_def)
  moreover have "exited (execute w args options order) = None \<longrightarrow> ?k = length vmIds"
    unfolding run cnt(2) using len by simp
  ultimately show ?thesis by (intro exI [of _ ?k]) simp
qed

theorem progress_events_witness:
  "mapMetricName sample_options (requestedMetric sample_options) = Inr ''Percentage CPU'' \<and>
   getVMIds (sample_world (\<lambda>c. exit_ok (series_payload []))) sample_options = Inr sample_listing \<and>
   mset [\<lparr>id_res = ''/vm/3'', name = ''db-1''\<rparr>, \<lparr>id_res = ''/vm/1'', name = ''web-1''\<rparr>,
         \<lparr>id_res = ''/vm/2'', name = ''web-2''\<rparr>] = mset sample_listing \<and>
   filter is_Progress (events (execute (sample_world (\<lambda>c. exit_ok (series_payload []))) sample_args sample_options
      [\<lparr>id_res = ''/vm/3'', name = ''db-1''\<rparr>, \<lparr>id_res = ''/vm/1'', name = ''web-1''\<rparr>,
       \<lparr>id_res = ''/vm/2'', name = ''web-2''\<rparr>])) =
     [Progress 0 3, Progress 1 3, Progress 2 3, Progress 3 3]"
proof -
  let ?w = "sample_world (\<lambda>c. exit_ok (series_payload []))"
  let ?order = "[\<lparr>id_res = ''/vm/3'', name = ''db-1''\<rparr>, \<lparr>id_res = ''/vm/1'', name = ''web-1''\<rparr>,
       \<lparr>id_res = ''/vm/2'', name = ''web-2''\<rparr>]"
  have fetch: "getTimeSeries ?w i fl = Inr (Val [])" for i fl
    by (simp add: getTimeSeries_def azAsync_def execOrFailAsync_def JSON_parse_def sample_world_def
        exit_ok_def selectSeries_def firstTimeseries_def series_payload_def)
  have ret: "exited (execute ?w sample_args sample_options ?order) = None"
    by (simp add: execute_fan_out [OF sample_metric_name sample_getVMIds] settle_ok [OF fetch])
  have len: "length sample_listing = 3"
    by (simp add: sample_listing_def)
  have upt: "[Suc 0 ..< 4] = [Suc 0, 2, 3]"
    by (simp add: upt_conv_Cons)
  from progress_events [OF sample_metric_name sample_getVMIds sample_order, of "\<lambda>c. exit_ok (series_payload [])" sample_args]
  obtain k where "events (execute ?w sample_args sample_options ?order) =
       [Launch (trim (''az '' @ resourceListCommand sample_options)), Progress 0 (length sample_listing)] @
       map (\<lambda>vm. Launch (trim (''az '' @ metricsListCommand (id_res vm) (timeSeriesFlags_of ?w sample_args ''Percentage CPU'')))) sample_listing @
       map (\<lambda>j. Progress j (length sample_listing)) [1 ..< Suc k]"
     and "exited (execute ?w sample_args sample_options ?order) = None \<longrightarrow> k = length sample_listing"
    by (elim exE conjE)
  then have "filter is_Progress (events (execute ?w sample_args sample_options ?order)) =
      [Progress 0 3, Progress 1 3, Progress 2 3, Progress 3 3]"
    using ret by (simp add: len upt launches_drop)
  then show ?thesis
    using sample_metric_name sample_getVMIds sample_order by simp
qed

text \<open>
  C6. Once the metric name is resolved: if the listing command exits with a non-zero
  status, the run ends with exit status 1 and returns no map, having started that one
  command only; if the command of any listed resource exits with a non-zero status,
  then in every completion order the run ends with exit status 1 and returns no map,
  and the commands it has started are the listing and one per resource, none twice.
\<close>

theorem nonzero_exit_fatal:
  assumes "mapMetricName options (requestedMetric options) = Inr metricName"
  shows "(code (exec_resource_list w (trim (''az '' @ resourceListCommand options))) \<noteq> 0 \<longrightarrow>
            (\<exists>d. returned (execute w args options order) = Inl (ProcessExit 1 d)) \<and>
            filter is_Launch (events (execute w args options order)) =
              [Launch (trim (''az '' @ resourceListCommand options))]) \<and>
         (\<forall>vmIds vm. getVMIds w options = Inr vmIds \<and> mset order = mset vmIds \<and> vm \<in> set vmIds \<and>
            code (exec_metrics_list w
              (trim (''az '' @ metricsListCommand (id_res vm) (timeSeriesFlags_of w args metricName)))) \<noteq> 0 \<longrightarrow>
            (\<exists>d. returned (execute w args options order) = Inl (ProcessExit 1 d)) \<and>
            filter is_Launch (events (execute w args options order)) =
              Launch (trim (''az '' @ resourceListCommand options)) #
              map (\<lambda>vm. Launch (trim (''az '' @ metricsListCommand (id_res vm) (timeSeriesFlags_of w args metricName)))) vmIds)"
proof (intro conjI allI impI)
  assume bad: "code (exec_resource_list w (trim (''az '' @ resourceListCommand options))) \<noteq> 0"
  have run: "execute w args options order =
     \<lparr>completedQueries = 0, labeled = Map.empty,
      events = [Launch (trim (''az '' @ resourceListCommand options))],
      exited = Some (catch_exit (ProcessExit 1 (CommandFailed (''az '' @ resourceListCommand options))))\<rparr>"
    using assms getVMIds_nonzero [OF bad] by (rule execute_listing_failed)
  show "\<exists>d. returned (execute w args options order) = Inl (ProcessExit 1 d)"
    unfolding run by (simp add: returned_def catch_exit_def)
  show "filter is_Launch (events (execute w args options order)) =
      [Launch (trim (''az '' @ resourceListCommand options))]"
    unfolding run by simp
next
  fix vmIds vm
  let ?fl = "timeSeriesFlags_of w args metricName"
  let ?st = "\<lparr>completedQueries = 0, labeled = Map.empty,
        events = fanned_out w args options metricName vmIds, exited = None\<rparr>"
  assume h: "getVMIds w options = Inr vmIds \<and> mset order = mset vmIds \<and> vm \<in> set vmIds \<and>
     code (exec_metrics_list w (trim (''az '' @ metricsListCommand (id_res vm) ?fl))) \<noteq> 0"
  have run: "execute w args options order =
      settle_all w ?fl (requestedMetric options) (length vmIds) ?st order"
    using assms h by (intro execute_fan_out) simp_all
  have mem: "vm \<in> set order"
    using h mset_eq_setD [of order vmIds] by simp
  have fail: "getTimeSeries w (id_res vm) ?fl =
      Inl (ProcessExit 1 (CommandFailed (''az '' @ metricsListCommand (id_res vm) ?fl)))"
    using h by (intro getTimeSeries_nonzero) simp
  have "\<exists>d. exited (settle_all w ?fl (requestedMetric options) (length vmIds) ?st order) = Some (ProcessExit 1 d)"
    using settle_all_exits [of ?st vm order w ?fl _ "requestedMetric options" "length vmIds"] mem fail by simp
  then show "\<exists>d. returned (execute w args options order) = Inl (ProcessExit 1 d)"
    unfolding run by (auto simp: returned_def)
  have "events (settle_all w ?fl (requestedMetric options) (length vmIds) ?st order) =
      events ?st @ map (\<lambda>j. Progress j (length vmIds))
        [Suc (completedQueries ?st) ..< Suc (completedQueries ?st) +
           length (takeWhile (\<lambda>vm. \<not> isl (getTimeSeries w (id_res vm) ?fl)) order)]"
    using settle_all_events_count [of ?st w ?fl "requestedMetric options" "length vmIds" order] by simp
  then show "filter is_Launch (events (execute w args options order)) =
      Launch (trim (''az '' @ resourceListCommand options)) #
      map (\<lambda>vm. Launch (trim (''az '' @ metricsListCommand (id_res vm) ?fl))) vmIds"
    unfolding run by (simp add: launches_of_progress launches_fanned_out)
qed

theorem nonzero_exit_fatal_witness:
  "mapMetricName sample_options (requestedMetric sample_options) = Inr ''Percentage CPU'' \<and>
   (\<exists>d. returned (execute (sample_world failing_second) sample_args sample_options
      [\<lparr>id_res = ''/vm/3'', name = ''db-1''\<rparr>, \<lparr>id_res = ''/vm/1'', name = ''web-1''\<rparr>,
       \<lparr>id_res = ''/vm/2'', name = ''web-2''\<rparr>]) = Inl (ProcessExit 1 d)) \<and>
   length (filter is_Launch (events (execute (sample_world failing_second) sample_args sample_options
      [\<lparr>id_res = ''/vm/3'', name = ''db-1''\<rparr>, \<lparr>id_res = ''/vm/1'', name = ''web-1''\<rparr>,
       \<lparr>id_res = ''/vm/2'', name = ''web-2''\<rparr>]))) = 4"
proof -
  let ?w = "sample_world failing_second"
  let ?vm = "\<lparr>id_res = ''/vm/2'', name = ''web-2''\<rparr>"
  have mem: "?vm \<in> set sample_listing"
    by (simp add: sample_listing_def)
  have bad: "code (exec_metrics_list ?w
      (trim (''az '' @ metricsListCommand (id_res ?vm) (timeSeriesFlags_of ?w sample_args ''Percentage CPU'')))) \<noteq> 0"
    by (simp add: sample_world_def failing_second_def metricsListCommand_def timeSeriesFlags_of_def
        trim_def is_space_def starts_with_def exit_failed_def sample_args_def getValidInterval_seven_minutes)
  have len: "length sample_listing = 3"
    by (simp add: sample_listing_def)
  let ?order = "[\<lparr>id_res = ''/vm/3'', name = ''db-1''\<rparr>, \<lparr>id_res = ''/vm/1'', name = ''web-1''\<rparr>,
       \<lparr>id_res = ''/vm/2'', name = ''web-2''\<rparr>]"
  have all: "getVMIds ?w sample_options = Inr sample_listing \<and> mset ?order = mset sample_listing \<and>
      ?vm \<in> set sample_listing \<and>
      code (exec_metrics_list ?w
        (trim (''az '' @ metricsListCommand (id_res ?vm) (timeSeriesFlags_of ?w sample_args ''Percentage CPU'')))) \<noteq> 0"
    using sample_getVMIds [of failing_second] sample_order mem bad by simp
  from nonzero_exit_fatal [OF sample_metric_name, of ?w sample_args ?order]
  have "\<forall>vmIds vm. getVMIds ?w sample_options = Inr vmIds \<and> mset ?order = mset vmIds \<and> vm \<in> set vmIds \<and>
            code (exec_metrics_list ?w
              (trim (''az '' @ metricsListCommand (id_res vm) (timeSeriesFlags_of ?w sample_args ''Percentage CPU'')))) \<noteq> 0 \<longrightarrow>
            (\<exists>d. returned (execute ?w sample_args sample_options ?order) = Inl (ProcessExit 1 d)) \<and>
            filter is_Launch (events (execute ?w sample_args sample_options ?order)) =
              Launch (trim (''az '' @ resourceListCommand sample_options)) #
              map (\<lambda>vm. Launch (trim (''az '' @ metricsListCommand (id_res vm) (timeSeriesFlags_of ?w sample_args ''Percentage CPU'')))) vmIds"
    by (rule conjunct2)
  then have "(\<exists>d. returned (execute ?w sample_args sample_options ?order) = Inl (ProcessExit 1 d)) \<and>
      filter is_Launch (events (execute ?w sample_args sample_options ?order)) =
        Launch (trim (''az '' @ resourceListCommand sample_options)) #
        map (\<lambda>vm. Launch (trim (''az '' @ metricsListCommand (id_res vm) (timeSeriesFlags_of ?w sample_args ''Percentage CPU'')))) sample_listing"
    using all by blast
  then show ?thesis
    using sample_metric_name by (auto simp: len)
qed

subsection \<open>Null and empty series\<close>

lemma mixed_commands:
  "exec_metrics_list (sample_world mixed_metrics)
     (trim (''az '' @ metricsListCommand ''/vm/1'' (timeSeriesFlags_of (sample_world mixed_metrics) sample_args ''Percentage CPU''))) =
     exit_ok \<lparr>payload_value = [\<lparr>timeseries = Val []\<rparr>]\<rparr>"
  "exec_metrics_list (sample_world mixed_metrics)
     (trim (''az '' @ metricsListCommand ''/vm/2'' (timeSeriesFlags_of (sample_world mixed_metrics) sample_args ''Percentage CPU''))) =
     exit_ok (series_payload [gap_point])"
  "exec_metrics_list (sample_world mixed_metrics)
     (trim (''az '' @ metricsListCommand ''/vm/3'' (timeSeriesFlags_of (sample_world mixed_metrics) sample_args ''Percentage CPU''))) =
     exit_ok (series_payload [gap_point\<lparr>average := Val (Fin 42)\<rparr>])"
  by (simp_all add: sample_world_def mixed_metrics_def metricsListCommand_def timeSeriesFlags_of_def
      trim_def is_space_def starts_with_def sample_args_def getValidInterval_seven_minutes)

lemma mixed_fetches:
  "getTimeSeries (sample_world mixed_metrics) ''/vm/1''
     (timeSeriesFlags_of (sample_world mixed_metrics) sample_args ''Percentage CPU'') = Inr Null"
  "getTimeSeries (sample_world mixed_metrics) ''/vm/2''
     (timeSeriesFlags_of (sample_world mixed_metrics) sample_args ''Percentage CPU'') = Inr (Val [gap_point])"
  "getTimeSeries (sample_world mixed_metrics) ''/vm/3''
     (timeSeriesFlags_of (sample_world mixed_metrics) sample_args ''Percentage CPU'') =
     Inr (Val [gap_point\<lparr>average := Val (Fin 42)\<rparr>])"
proof -
  let ?w = "sample_world mixed_metrics"
  let ?fl = "timeSeriesFlags_of ?w sample_args ''Percentage CPU''"
  have "getTimeSeries ?w ''/vm/1'' ?fl = selectSeries \<lparr>payload_value = [\<lparr>timeseries = Val []\<rparr>]\<rparr>"
    by (rule getTimeSeries_ok) (simp_all only: mixed_commands exit_ok_def exec_result.simps)
  then show "getTimeSeries ?w ''/vm/1'' ?fl = Inr Null"
    by (simp add: selectSeries_def firstTimeseries_def)
  have "getTimeSeries ?w ''/vm/2'' ?fl = selectSeries (series_payload [gap_point])"
    by (rule getTimeSeries_ok) (simp_all only: mixed_commands exit_ok_def exec_result.simps)
  then show "getTimeSeries ?w ''/vm/2'' ?fl = Inr (Val [gap_point])"
    by (simp add: selectSeries_def firstTimeseries_def series_payload_def)
  have "getTimeSeries ?w ''/vm/3'' ?fl = selectSeries (series_payload [gap_point\<lparr>average := Val (Fin 42)\<rparr>])"
    by (rule getTimeSeries_ok) (simp_all only: mixed_commands exit_ok_def exec_result.simps)
  then show "getTimeSeries ?w ''/vm/3'' ?fl = Inr (Val [gap_point\<lparr>average := Val (Fin 42)\<rparr>])"
    by (simp add: selectSeries_def firstTimeseries_def series_payload_def)
qed

lemma gap_point_dropped: "normalizeSeries [gap_point] m = []"
  by (simp add: normalizeSeries_def mapTimeSeriesDataPoint_def nullish_def gap_point_def)

lemma mixed_run_returns:
  "exited (execute (sample_world mixed_metrics) sample_args sample_options sample_listing) = None"
  unfolding execute_fan_out [OF sample_metric_name sample_getVMIds]
  by (simp add: sample_listing_def settle_ok mixed_fetches)

text \<open>
  A payload with an empty \<open>value\<close> array passes the \<open>|| {}\<close> of the destructuring and
  then throws at the read of \<open>length\<close>: the fetch has no result and the run exits without
  a map. The statement on null and empty series below is about payloads that carry a
  \<open>timeseries\<close> array and says nothing of this case.
\<close>

lemma empty_value_array_throws:
  "getTimeSeries (sample_world (\<lambda>c. exit_ok without_timeseries)) ''/vm/1'' ''--interval 5m'' =
     Inl (Throw TypeError) \<and>
   getTimeSeries (sample_world (\<lambda>c. exit_ok without_timeseries)) ''/vm/1'' ''--interval 5m'' \<noteq> Inr Null \<and>
   returned (execute (sample_world (\<lambda>c. exit_ok without_timeseries)) sample_args sample_options sample_listing) =
     Inl (ProcessExit 1 (Caught TypeError))"
proof -
  let ?w = "sample_world (\<lambda>c. exit_ok without_timeseries)"
  have fetch: "getTimeSeries ?w i fl = Inl (Throw TypeError)" for i fl
    by (simp add: getTimeSeries_def azAsync_def execOrFailAsync_def JSON_parse_def sample_world_def
        exit_ok_def selectSeries_def firstTimeseries_def without_timeseries_def)
  have "returned (execute ?w sample_args sample_options sample_listing) = Inl (ProcessExit 1 (Caught TypeError))"
    unfolding execute_fan_out [OF sample_metric_name sample_getVMIds]
    by (simp add: sample_listing_def settle_failed [OF fetch] returned_def catch_exit_def)
  then show ?thesis
    using fetch by simp
qed

lemma twin_getVMIds: "getVMIds twin_world sample_options = Inr twin_listing"
  by (simp add: getVMIds_def az_def execOrFail_def JSON_parse_def twin_world_def sample_world_def exit_ok_def
      nameFilter_def sample_options_def filter_throwing_total twin_listing_def)

lemma twin_commands:
  "exec_metrics_list twin_world
     (trim (''az '' @ metricsListCommand ''/group-a/vm'' (timeSeriesFlags_of twin_world sample_args ''Percentage CPU''))) =
     exit_ok (series_payload [gap_point])"
  "exec_metrics_list twin_world
     (trim (''az '' @ metricsListCommand ''/group-b/vm'' (timeSeriesFlags_of twin_world sample_args ''Percentage CPU''))) =
     exit_ok (series_payload [gap_point\<lparr>average := Val (Fin 42)\<rparr>])"
  by (simp_all add: twin_world_def sample_world_def twin_metrics_def metricsListCommand_def timeSeriesFlags_of_def
      trim_def is_space_def starts_with_def sample_args_def getValidInterval_seven_minutes)

lemma twin_fetches:
  "getTimeSeries twin_world ''/group-a/vm''
     (timeSeriesFlags_of twin_world sample_args ''Percentage CPU'') = Inr (Val [gap_point])"
  "getTimeSeries twin_world ''/group-b/vm''
     (timeSeriesFlags_of twin_world sample_args ''Percentage CPU'') =
     Inr (Val [gap_point\<lparr>average := Val (Fin 42)\<rparr>])"
proof -
  let ?fl = "timeSeriesFlags_of twin_world sample_args ''Percentage CPU''"
  have "getTimeSeries twin_world ''/group-a/vm'' ?fl = selectSeries (series_payload [gap_point])"
    by (rule getTimeSeries_ok) (simp_all only: twin_commands exit_ok_def exec_result.simps)
  then show "getTimeSeries twin_world ''/group-a/vm'' ?fl = Inr (Val [gap_point])"
    by (simp add: selectSeries_def firstTimeseries_def series_payload_def)
  have "getTimeSeries twin_world ''/group-b/vm'' ?fl =
      selectSeries (series_payload [gap_point\<lparr>average := Val (Fin 42)\<rparr>])"
    by (rule getTimeSeries_ok) (simp_all only: twin_commands exit_ok_def exec_result.simps)
  then show "getTimeSeries twin_world ''/group-b/vm'' ?fl = Inr (Val [gap_point\<lparr>average := Val (Fin 42)\<rparr>])"
    by (simp add: selectSeries_def firstTimeseries_def series_payload_def)
qed

lemma valued_point_kept:
  "normalizeSeries [gap_point\<lparr>average := Val (Fin 42)\<rparr>] cpu = [(Date ''2024-01-01T00:00:00Z'', Val (Fin 42))]"
  by (simp add: normalizeSeries_def mapTimeSeriesDataPoint_def nullish_def gap_point_def transformValue_def)

text \<open>
  C2, as stated, fails in its second half. Two listed resources have the same name; the
  fetch of the first returns a series that normalizes to zero points, the fetch of the
  second a series of one point. When they complete in listing order the second write
  replaces the first: the run returns, and the name is mapped to the one point, not to
  an empty sequence.
\<close>

theorem same_name_overwritten_counterexample:
  "getVMIds twin_world sample_options = Inr twin_listing \<and>
   getTimeSeries twin_world ''/group-a/vm'' (timeSeriesFlags_of twin_world sample_args ''Percentage CPU'') =
     Inr (Val [gap_point]) \<and>
   normalizeSeries [gap_point] cpu = [] \<and>
   exited (execute twin_world sample_args sample_options twin_listing) = None \<and>
   labeled (execute twin_world sample_args sample_options twin_listing) ''web-1'' =
     Some [(Date ''2024-01-01T00:00:00Z'', Val (Fin 42))] \<and>
   labeled (execute twin_world sample_args sample_options twin_listing) ''web-1'' \<noteq> Some []"
proof -
  have run: "labeled (execute twin_world sample_args sample_options twin_listing) ''web-1'' =
      Some [(Date ''2024-01-01T00:00:00Z'', Val (Fin 42))] \<and>
      exited (execute twin_world sample_args sample_options twin_listing) = None"
    unfolding execute_fan_out [OF sample_metric_name twin_getVMIds]
    by (simp add: twin_listing_def settle_ok twin_fetches sample_requested gap_point_dropped valued_point_kept)
  then show ?thesis
    using twin_getVMIds twin_fetches(1) gap_point_dropped [of cpu] by simp
qed

text \<open>
  C2, amended. For a listed resource in a run that has resolved the metric name: if its
  command succeeds with a payload whose \<open>timeseries\<close> array is empty (no series at all),
  the fetch result is null and handling the completion leaves the map as it was; if the
  fetch result is a series that normalizes to zero points, handling the completion maps
  the resource's name to the empty sequence, and when the run returns the name is in the
  returned map, with the empty sequence unless a resource of the same name completes
  later: so when none of that name follows in the completion order, and so when no other
  listed resource has that name. The names in the returned map are exactly the names of
  the listed resources whose fetch result is a series.
\<close>

theorem empty_timeseries_null_and_empty_series:
  assumes "mapMetricName options (requestedMetric options) = Inr metricName"
    and "getVMIds w options = Inr vmIds"
    and "mset order = mset vmIds"
    and "vm \<in> set vmIds"
  shows "(\<forall>d e es.
            code (exec_metrics_list w (trim (''az '' @
              metricsListCommand (id_res vm) (timeSeriesFlags_of w args metricName)))) = 0 \<and>
            stdout (exec_metrics_list w (trim (''az '' @
              metricsListCommand (id_res vm) (timeSeriesFlags_of w args metricName)))) = Some d \<and>
            payload_value d = e # es \<and> timeseries e = Val [] \<longrightarrow>
            getTimeSeries w (id_res vm) (timeSeriesFlags_of w args metricName) = Inr Null \<and>
            labeled (settle w (timeSeriesFlags_of w args metricName) (requestedMetric options) n st vm) =
              labeled st) \<and>
         (\<forall>rs. getTimeSeries w (id_res vm) (timeSeriesFlags_of w args metricName) = Inr (Val rs) \<and>
            normalizeSeries rs (requestedMetric options) = [] \<longrightarrow>
            labeled (settle w (timeSeriesFlags_of w args metricName) (requestedMetric options) n st vm) =
              (labeled st)(name vm \<mapsto> []) \<and>
            (exited (execute w args options order) = None \<longrightarrow>
               name vm \<in> dom (labeled (execute w args options order)) \<and>
               ((\<exists>pre post. order = pre @ vm # post \<and> (\<forall>x \<in> set post. name x \<noteq> name vm)) \<longrightarrow>
                  labeled (execute w args options order) (name vm) = Some []) \<and>
               ((\<forall>x \<in> set vmIds. name x = name vm \<longrightarrow> x = vm) \<longrightarrow>
                  labeled (execute w args options order) (name vm) = Some []))) \<and>
         (exited (execute w args options order) = None \<longrightarrow>
            dom (labeled (execute w args options order)) =
              {name x | x. x \<in> set vmIds \<and>
                 (\<exists>rs. getTimeSeries w (id_res x) (timeSeriesFlags_of w args metricName) = Inr (Val rs))})"
proof -
  let ?fl = "timeSeriesFlags_of w args metricName"
  let ?m = "requestedMetric options"
  let ?st = "\<lparr>completedQueries = 0, labeled = Map.empty,
        events = fanned_out w args options metricName vmIds, exited = None\<rparr>"
  have run: "execute w args options order = settle_all w ?fl ?m (length vmIds) ?st order"
    using assms(1,2) by (rule execute_fan_out)
  have sets: "set order = set vmIds"
    using assms(3) by (rule mset_eq_setD)
  have doms: "dom (labeled (execute w args options order)) =
      {name x | x. x \<in> set vmIds \<and> (\<exists>rs. getTimeSeries w (id_res x) ?fl = Inr (Val rs))}"
    if "exited (execute w args options order) = None"
    using settle_all_dom [of w ?fl ?m "length vmIds" ?st order] that
    unfolding run sets by simp
  have a: "getTimeSeries w (id_res vm) ?fl = Inr Null \<and> labeled (settle w ?fl ?m n st vm) = labeled st"
    if "code (exec_metrics_list w (trim (''az '' @ metricsListCommand (id_res vm) ?fl))) = 0 \<and>
        stdout (exec_metrics_list w (trim (''az '' @ metricsListCommand (id_res vm) ?fl))) = Some d \<and>
        payload_value d = e # es \<and> timeseries e = Val []" for d e es
  proof -
    have "getTimeSeries w (id_res vm) ?fl = selectSeries d"
      using that by (intro getTimeSeries_ok) simp_all
    then have null: "getTimeSeries w (id_res vm) ?fl = Inr Null"
      using that selectSeries_present [of d e es "[]"] by simp
    then show ?thesis
      by (simp add: settle_ok [OF null])
  qed
  have b: "labeled (settle w ?fl ?m n st vm) = (labeled st)(name vm \<mapsto> []) \<and>
      (exited (execute w args options order) = None \<longrightarrow>
         name vm \<in> dom (labeled (execute w args options order)) \<and>
         ((\<exists>pre post. order = pre @ vm # post \<and> (\<forall>x \<in> set post. name x \<noteq> name vm)) \<longrightarrow>
            labeled (execute w args options order) (name vm) = Some []) \<and>
         ((\<forall>x \<in> set vmIds. name x = name vm \<longrightarrow> x = vm) \<longrightarrow>
            labeled (execute w args options order) (name vm) = Some []))"
    if h: "getTimeSeries w (id_res vm) ?fl = Inr (Val rs) \<and> normalizeSeries rs ?m = []" for rs
  proof (intro conjI impI)
    show "labeled (settle w ?fl ?m n st vm) = (labeled st)(name vm \<mapsto> [])"
      using h by (simp add: settle_ok [of w vm ?fl "Val rs"])
  next
    assume ret: "exited (execute w args options order) = None"
    show "name vm \<in> dom (labeled (execute w args options order))"
      unfolding doms [OF ret] using assms(4) h by blast
  next
    assume ret: "exited (execute w args options order) = None"
      and last: "\<exists>pre post. order = pre @ vm # post \<and> (\<forall>x \<in> set post. name x \<noteq> name vm)"
    then obtain pre post where split: "order = pre @ vm # post"
      and later: "\<forall>x \<in> set post. name x \<noteq> name vm"
      by (elim exE conjE)
    have ret': "exited (settle_all w ?fl ?m (length vmIds) ?st (pre @ vm # post)) = None"
      using ret run split by simp
    have "labeled (settle_all w ?fl ?m (length vmIds) ?st (pre @ vm # post)) (name vm) =
        Some (normalizeSeries rs ?m)"
      using ret' h later by (intro settle_all_last_write) simp_all
    then show "labeled (execute w args options order) (name vm) = Some []"
      using run split h by simp
  next
    assume ret: "exited (execute w args options order) = None"
      and uniq: "\<forall>x \<in> set vmIds. name x = name vm \<longrightarrow> x = vm"
    have "labeled (settle_all w ?fl ?m (length vmIds) ?st order) (name vm) = Some (normalizeSeries rs ?m)"
      using ret assms(4) h uniq unfolding run sets [symmetric]
      by (intro settle_all_unique_name) simp_all
    then show "labeled (execute w args options order) (name vm) = Some []"
      unfolding run using h by simp
  qed
  show ?thesis
    using a b doms by blast
qed

theorem empty_timeseries_null_and_empty_series_witness:
  "mapMetricName sample_options (requestedMetric sample_options) = Inr ''Percentage CPU'' \<and>
   getVMIds (sample_world mixed_metrics) sample_options = Inr sample_listing \<and>
   mset sample_listing = mset sample_listing \<and>
   \<lparr>id_res = ''/vm/2'', name = ''web-2''\<rparr> \<in> set sample_listing \<and>
   labeled (execute (sample_world mixed_metrics) sample_args sample_options sample_listing) ''web-2'' = Some [] \<and>
   getTimeSeries (sample_world mixed_metrics) ''/vm/1''
     (timeSeriesFlags_of (sample_world mixed_metrics) sample_args ''Percentage CPU'') = Inr Null \<and>
   labeled (execute (sample_world mixed_metrics) sample_args sample_options sample_listing) ''web-1'' = None"
proof -
  let ?w = "sample_world mixed_metrics"
  let ?fl = "timeSeriesFlags_of ?w sample_args ''Percentage CPU''"
  let ?run = "execute ?w sample_args sample_options sample_listing"
  let ?vm = "\<lparr>id_res = ''/vm/2'', name = ''web-2''\<rparr>"
  have mem: "?vm \<in> set sample_listing"
    by (simp add: sample_listing_def)
  have uniq: "\<forall>x \<in> set sample_listing. name x = name ?vm \<longrightarrow> x = ?vm"
    by (simp add: sample_listing_def)
  have fetch: "getTimeSeries ?w (id_res ?vm) ?fl = Inr (Val [gap_point]) \<and>
      normalizeSeries [gap_point] (requestedMetric sample_options) = []"
    by (simp add: mixed_fetches gap_point_dropped)
  note inst = empty_timeseries_null_and_empty_series
    [OF sample_metric_name sample_getVMIds refl mem, of mixed_metrics sample_args]
  from inst have "\<forall>rs. getTimeSeries ?w (id_res ?vm) ?fl = Inr (Val rs) \<and>
            normalizeSeries rs (requestedMetric sample_options) = [] \<longrightarrow>
            (exited ?run = None \<longrightarrow>
               ((\<forall>x \<in> set sample_listing. name x = name ?vm \<longrightarrow> x = ?vm) \<longrightarrow>
                  labeled ?run (name ?vm) = Some []))"
    by blast
  then have stored: "labeled ?run (name ?vm) = Some []"
    using fetch mixed_run_returns uniq by blast
  from inst have "exited ?run = None \<longrightarrow> dom (labeled ?run) =
      {name x | x. x \<in> set sample_listing \<and> (\<exists>rs. getTimeSeries ?w (id_res x) ?fl = Inr (Val rs))}"
    by blast
  then have names: "dom (labeled ?run) =
      {name x | x. x \<in> set sample_listing \<and> (\<exists>rs. getTimeSeries ?w (id_res x) ?fl = Inr (Val rs))}"
    using mixed_run_returns by simp
  have "\<forall>x \<in> set sample_listing. name x = ''web-1'' \<longrightarrow>
      getTimeSeries ?w (id_res x) ?fl = Inr Null"
    by (simp add: sample_listing_def mixed_fetches)
  then have "''web-1'' \<notin>
      {name x | x. x \<in> set sample_listing \<and> (\<exists>rs. getTimeSeries ?w (id_res x) ?fl = Inr (Val rs))}"
    by fastforce
  then have "''web-1'' \<notin> dom (labeled ?run)"
    unfolding names .
  then have absent: "labeled ?run ''web-1'' = None"
    by blast
  show ?thesis
    using stored absent sample_metric_name sample_getVMIds mem mixed_fetches(1) by simp
qed

end
